theory Spec2Isabelle
  imports Complex_Main "HOL-Library.AList" "HOL-Library.Multiset"
begin

section \<open>JavaScript values\<close>

text \<open>
  The report normaliser \<open>createSafeReport\<close> and the performance-data fetcher
  \<open>fetchRealAuditData\<close> work on untyped values (\<open>data: any\<close>): the object parsed from
  the model's text and the payload of the performance API. The TypeScript interfaces of
  \<open>types.ts\<close> are erased at run time, so values are modelled as the run-time has them.

  A number is a finite value, an infinity or NaN. No arithmetic is modelled on finite
  values other than comparison, maximum and the sign of a difference, which are exact on
  doubles.
\<close>

datatype number = NaN | NInf | Fin rat | PInf

datatype jsval =
    JUndefined
  | JNull
  | JBool bool
  | JNum number
  | JStr string
  | JArr "jsval list"
  | JObj "(string \<times> jsval) list"

text \<open>
  An object is the list of its own properties in property order; the keys of a parsed
  object are distinct. Errors are values: the name and the message of what is thrown.
\<close>

datatype js_error = Thrown (ename: string) (emessage: string)

definition typeError :: js_error where
  "typeError = Thrown ''TypeError'' ''Cannot read properties of null or undefined''"

subsection \<open>Comparison and maximum of numbers\<close>

text \<open>\<open>a < b\<close>, \<open>a > b\<close> and \<open>a >= b\<close> of the language: false whenever an operand is NaN.\<close>

fun num_less :: "number \<Rightarrow> number \<Rightarrow> bool" where
  "num_less NaN _ = False"
| "num_less _ NaN = False"
| "num_less NInf NInf = False"
| "num_less NInf _ = True"
| "num_less (Fin a) NInf = False"
| "num_less (Fin a) (Fin b) = (a < b)"
| "num_less (Fin a) PInf = True"
| "num_less PInf _ = False"

definition num_gt :: "number \<Rightarrow> number \<Rightarrow> bool" where
  "num_gt a b = num_less b a"

definition num_ge :: "number \<Rightarrow> number \<Rightarrow> bool" where
  "num_ge a b = (a \<noteq> NaN \<and> b \<noteq> NaN \<and> \<not> num_less a b)"

text \<open>\<open>Math.max(a, b)\<close>: NaN if either argument is NaN.\<close>

definition math_max :: "number \<Rightarrow> number \<Rightarrow> number" where
  "math_max a b = (if a = NaN \<or> b = NaN then NaN else if num_less a b then b else a)"

subsection \<open>Truthiness, property reads, conversions\<close>

fun truthy :: "jsval \<Rightarrow> bool" where
  "truthy JUndefined = False"
| "truthy JNull = False"
| "truthy (JBool b) = b"
| "truthy (JNum n) = (n \<noteq> NaN \<and> n \<noteq> Fin 0)"
| "truthy (JStr s) = (s \<noteq> [])"
| "truthy (JArr xs) = True"
| "truthy (JObj kvs) = True"

text \<open>\<open>a || b\<close> and \<open>a && b\<close>.\<close>

definition js_or :: "jsval \<Rightarrow> jsval \<Rightarrow> jsval" where
  "js_or a b = (if truthy a then a else b)"

definition js_and :: "jsval \<Rightarrow> jsval \<Rightarrow> jsval" where
  "js_and a b = (if truthy a then b else a)"

definition nullish :: "jsval \<Rightarrow> bool" where
  "nullish v = (v = JUndefined \<or> v = JNull)"

text \<open>
  \<open>v[k]\<close> for a value that is neither null nor undefined, and a key \<open>k\<close> that is none of
  the names inherited from a prototype, nor an array index or \<open>length\<close>: the own property
  of an object, \<open>undefined\<close> on anything else. Every key read by the code below is such a
  name.
\<close>

fun getProp :: "jsval \<Rightarrow> string \<Rightarrow> jsval" where
  "getProp (JObj kvs) k = (case map_of kvs k of Some v \<Rightarrow> v | None \<Rightarrow> JUndefined)"
| "getProp v k = JUndefined"

text \<open>\<open>v.k\<close>, which throws a TypeError on null and undefined, and \<open>v?.k\<close>, which does not.\<close>

definition propE :: "jsval \<Rightarrow> string \<Rightarrow> js_error + jsval" where
  "propE v k = (if nullish v then Inl typeError else Inr (getProp v k))"

definition optProp :: "jsval \<Rightarrow> string \<Rightarrow> jsval" where
  "optProp v k = (if nullish v then JUndefined else getProp v k)"

text \<open>Sequencing of steps that may throw: the first error ends the computation.\<close>

definition bindE :: "'e + 'a \<Rightarrow> ('a \<Rightarrow> 'e + 'b) \<Rightarrow> 'e + 'b" where
  "bindE m f = (case m of Inl e \<Rightarrow> Inl e | Inr x \<Rightarrow> f x)"

text \<open>
  What the code takes from the language's library is a record of arguments:
  \<open>toNum\<close>, the conversion to a number of a string, an array or an object, which throws
  a TypeError for an object that has no callable \<open>toString\<close> or \<open>valueOf\<close> (a parsed
  \<open>{"toString": null}\<close>);
  \<open>toStr\<close>, the conversion to a string of a value other than a string, which throws
  for the same objects;
  \<open>upper\<close>, \<open>String.prototype.toUpperCase\<close> on a string that holds a character outside
  ASCII;
  \<open>inheritedText\<close>, for the name of a member that an object literal inherits from
  \<open>Object.prototype\<close> (\<open>toString\<close>, \<open>constructor\<close>, ...), the text that a template
  literal gives for that member, and \<open>None\<close> for every other name;
  \<open>roundTimes100\<close>, \<open>Math.round(x * 100)\<close>; \<open>roundDiv1024\<close>, \<open>Math.round(x / 1024)\<close>.
\<close>

record builtins =
  toNum :: "jsval \<Rightarrow> js_error + number"
  toStr :: "jsval \<Rightarrow> js_error + string"
  upper :: "string \<Rightarrow> string"
  inheritedText :: "string \<Rightarrow> string option"
  roundTimes100 :: "number \<Rightarrow> number"
  roundDiv1024 :: "number \<Rightarrow> number"

text \<open>
  \<open>Number(v)\<close> and the implicit conversion to a number: fixed by the language on
  undefined, null, booleans and numbers, the argument \<open>conv\<close> on strings, arrays and
  objects, where it may throw.
\<close>

fun toNumber :: "(jsval \<Rightarrow> js_error + number) \<Rightarrow> jsval \<Rightarrow> js_error + number" where
  "toNumber conv JUndefined = Inr NaN"
| "toNumber conv JNull = Inr (Fin 0)"
| "toNumber conv (JBool b) = Inr (if b then Fin 1 else Fin 0)"
| "toNumber conv (JNum n) = Inr n"
| "toNumber conv v = conv v"

text \<open>The conversion to a string, in a template literal.\<close>

definition toString :: "builtins \<Rightarrow> jsval \<Rightarrow> js_error + string" where
  "toString bi v = (case v of JStr s \<Rightarrow> Inr s | _ \<Rightarrow> toStr bi v)"

subsection \<open>Strings\<close>

text \<open>
  A string is the list of the bytes of its UTF-8 form, so a character outside ASCII takes
  two to four elements. \<open>toUpperCase\<close> maps the letters a to z on a string of ASCII
  characters, and is the argument \<open>upper\<close> on any other string.
\<close>

definition upper_char :: "char \<Rightarrow> char" where
  "upper_char c =
     (let n = (of_char c :: nat) in if 97 \<le> n \<and> n \<le> 122 then char_of (n - 32) else c)"

definition isAscii :: "char \<Rightarrow> bool" where
  "isAscii c = ((of_char c :: nat) < 128)"

definition toUpperCase :: "builtins \<Rightarrow> string \<Rightarrow> string" where
  "toUpperCase bi s = (if list_all isAscii s then map upper_char s else upper bi s)"

text \<open>
  \<open>s.trim()\<close> removes the white space and the line terminators of the language from both
  ends: the six of ASCII, and U+00A0, U+1680, U+2000 to U+200A, U+2028, U+2029, U+202F,
  U+205F, U+3000 and U+FEFF, each written here as its bytes.
\<close>

definition whiteSpace :: "string list" where
  "whiteSpace =
     [[CHR 0x09], [CHR 0x0A], [CHR 0x0B], [CHR 0x0C], [CHR 0x0D], [CHR 0x20],
      [CHR 0xC2, CHR 0xA0], [CHR 0xE1, CHR 0x9A, CHR 0x80],
      [CHR 0xE2, CHR 0x80, CHR 0x80], [CHR 0xE2, CHR 0x80, CHR 0x81],
      [CHR 0xE2, CHR 0x80, CHR 0x82], [CHR 0xE2, CHR 0x80, CHR 0x83],
      [CHR 0xE2, CHR 0x80, CHR 0x84], [CHR 0xE2, CHR 0x80, CHR 0x85],
      [CHR 0xE2, CHR 0x80, CHR 0x86], [CHR 0xE2, CHR 0x80, CHR 0x87],
      [CHR 0xE2, CHR 0x80, CHR 0x88], [CHR 0xE2, CHR 0x80, CHR 0x89],
      [CHR 0xE2, CHR 0x80, CHR 0x8A], [CHR 0xE2, CHR 0x80, CHR 0xA8],
      [CHR 0xE2, CHR 0x80, CHR 0xA9], [CHR 0xE2, CHR 0x80, CHR 0xAF],
      [CHR 0xE2, CHR 0x81, CHR 0x9F], [CHR 0xE3, CHR 0x80, CHR 0x80],
      [CHR 0xEF, CHR 0xBB, CHR 0xBF]]"

function dropLeading :: "string list \<Rightarrow> string \<Rightarrow> string" where
  "dropLeading ws s =
     (case find (\<lambda>w. w \<noteq> [] \<and> take (length w) s = w) ws of
        None \<Rightarrow> s
      | Some w \<Rightarrow> dropLeading ws (drop (length w) s))"
  by pat_completeness auto

termination
proof (relation "measure (\<lambda>p. length (snd p))")
  show "wf (measure (\<lambda>p. length (snd p)))"
    by simp
next
  fix ws :: "string list" and s w :: string
  assume "find (\<lambda>w. w \<noteq> [] \<and> take (length w) s = w) ws = Some w"
  then have "w \<noteq> []" and "take (length w) s = w"
    by (auto simp add: find_Some_iff)
  then have "s \<noteq> []"
    by auto
  with \<open>w \<noteq> []\<close> show "((ws, drop (length w) s), (ws, s)) \<in> measure (\<lambda>p. length (snd p))"
    by simp
qed

declare dropLeading.simps [simp del]

definition trim :: "string \<Rightarrow> string" where
  "trim s = rev (dropLeading (map rev whiteSpace) (rev (dropLeading whiteSpace s)))"

definition startsWith :: "string \<Rightarrow> string \<Rightarrow> bool" where
  "startsWith s p = (take (length p) s = p)"

definition check_mark :: string where
  "check_mark = [CHR 0xE2, CHR 0x9C, CHR 0x93]"

definition ballot_x :: string where
  "ballot_x = [CHR 0xE2, CHR 0x9C, CHR 0x97]"

text \<open>Array and object literals of uniform shape, as the default tables write them.\<close>

definition strs :: "string list \<Rightarrow> jsval" where
  "strs xs = JArr (map JStr xs)"

definition rows :: "string list \<Rightarrow> string list list \<Rightarrow> jsval" where
  "rows ks rs = JArr (map (\<lambda>r. JObj (zip ks (map JStr r))) rs)"

text \<open>
  The parts of a string that the language indexes: one for each character of one to
  three bytes, and the two surrogates for a character of four bytes, each surrogate
  written with three bytes.
\<close>

definition enc3 :: "nat \<Rightarrow> string" where
  "enc3 u = [char_of (224 + u div 4096), char_of (128 + (u div 64) mod 64), char_of (128 + u mod 64)]"

definition surrogates :: "string \<Rightarrow> string list" where
  "surrogates bs =
     (let n = (\<lambda>i. if i < length bs then (of_char (bs ! i) :: nat) else 0);
          cp = (n 0 mod 8) * 262144 + (n 1 mod 64) * 4096 + (n 2 mod 64) * 64 + n 3 mod 64;
          u = cp - 65536
      in [enc3 (55296 + u div 1024), enc3 (56320 + u mod 1024)])"

fun codeUnits :: "string \<Rightarrow> string list" where
  "codeUnits [] = []"
| "codeUnits (c # cs) =
     (if (of_char c :: nat) < 192 then [c] # codeUnits cs
      else if (of_char c :: nat) < 224 then (c # take 1 cs) # codeUnits (drop 1 cs)
      else if (of_char c :: nat) < 240 then (c # take 2 cs) # codeUnits (drop 2 cs)
      else surrogates (c # take 3 cs) @ codeUnits (drop 3 cs))"

text \<open>Decimal numerals, for the index keys of an array or string that is spread.\<close>

fun show_nat :: "nat \<Rightarrow> string" where
  "show_nat n =
     (if n < 10 then [''0123456789'' ! n]
      else show_nat (n div 10) @ [''0123456789'' ! (n mod 10)])"

declare show_nat.simps [simp del]

text \<open>A map whose function may throw: the first error ends it.\<close>

fun mapE :: "('a \<Rightarrow> 'e + 'b) \<Rightarrow> 'a list \<Rightarrow> 'e + 'b list" where
  "mapE f [] = Inr []"
| "mapE f (x # xs) =
     (case f x of
        Inl e \<Rightarrow> Inl e
      | Inr y \<Rightarrow> (case mapE f xs of Inl e \<Rightarrow> Inl e | Inr ys \<Rightarrow> Inr (y # ys)))"

section \<open>The report normaliser\<close>

text \<open>
  \<open>CURRENCY_SYMBOLS\<close>, and the text that \<open>${sym}\<close> gives for
  \<open>sym = CURRENCY_SYMBOLS[currency] || "$"\<close>. For a code that is the name of a member
  inherited from \<open>Object.prototype\<close> the read yields that member, which is truthy, and
  the template writes its text.
\<close>

definition CURRENCY_SYMBOLS :: "(string \<times> string) list" where
  "CURRENCY_SYMBOLS =
     [(''USD'', ''$''), (''GBP'', [CHR 0xC2, CHR 0xA3]), (''AUD'', ''A$''), (''CAD'', ''C$''),
      (''EUR'', [CHR 0xE2, CHR 0x82, CHR 0xAC])]"

definition symOf :: "builtins \<Rightarrow> string \<Rightarrow> string" where
  "symOf bi currency =
     (case map_of CURRENCY_SYMBOLS currency of
        Some s \<Rightarrow> if s \<noteq> [] then s else ''$''
      | None \<Rightarrow> (case inheritedText bi currency of Some t \<Rightarrow> t | None \<Rightarrow> ''$''))"

text \<open>\<open>url.replace(/^https?:\/\//, '').split('/')[0]\<close>.\<close>

definition stripScheme :: "string \<Rightarrow> string" where
  "stripScheme url =
     (if take 8 url = ''https://'' then drop 8 url
      else if take 7 url = ''http://'' then drop 7 url
      else url)"

definition domainOf :: "string \<Rightarrow> string" where
  "domainOf url = takeWhile (\<lambda>c. c \<noteq> CHR ''/'') (stripScheme url)"

text \<open>
  The path walk \<open>path.split('.').reduce((acc, part) => acc && acc[part], obj)\<close>. Every
  call passes a literal path, written here as the list of its parts.
\<close>

definition walk :: "jsval \<Rightarrow> string list \<Rightarrow> jsval" where
  "walk obj path = foldl (\<lambda>acc part. if truthy acc then getProp acc part else acc) obj path"

definition get :: "jsval \<Rightarrow> string list \<Rightarrow> jsval \<Rightarrow> jsval" where
  "get obj path fallback =
     (let val = walk obj path
      in if val \<noteq> JUndefined \<and> val \<noteq> JNull \<and> val \<noteq> JStr [] then val else fallback)"

definition getArray :: "jsval \<Rightarrow> string list \<Rightarrow> jsval \<Rightarrow> jsval" where
  "getArray obj path fallback =
     (let val = walk obj path
      in case val of JArr xs \<Rightarrow> (if length xs > 0 then val else fallback) | _ \<Rightarrow> fallback)"

text \<open>The revenue-risk string of the score multiplier logic.\<close>

definition revenueRisk :: "string \<Rightarrow> number \<Rightarrow> string" where
  "revenueRisk symb perfScore =
     (if num_ge perfScore (Fin 90) then symb @ ''0 - '' @ symb @ ''5,000 Risk''
      else if num_ge perfScore (Fin 50) then symb @ ''25,000 - '' @ symb @ ''45,000 Risk''
      else symb @ ''80,000+ Risk'')"

text \<open>
  The entries of an array, and the own enumerable properties copied by \<open>{...rec}\<close>: those
  of an object, the indexed elements of an array or string, none of any other value.
  Spreading null or undefined copies nothing and does not throw.
\<close>

definition elems :: "jsval \<Rightarrow> jsval list" where
  "elems v = (case v of JArr xs \<Rightarrow> xs | _ \<Rightarrow> [])"

definition spread :: "jsval \<Rightarrow> (string \<times> jsval) list" where
  "spread v =
     (case v of
        JObj kvs \<Rightarrow> kvs
      | JArr xs \<Rightarrow> zip (map show_nat [0..<length xs]) xs
      | JStr s \<Rightarrow> zip (map show_nat [0..<length (codeUnits s)]) (map JStr (codeUnits s))
      | _ \<Rightarrow> [])"

text \<open>
  The post-processing of one recommendation,
  \<open>{...rec, projectedRevenue: rec.projectedRevenue || fb1, projectedCustomers: rec.projectedCustomers || fb2}\<close>.
  Reading a property of a null entry throws. The version with six default recommendations
  has the comment "Ensure these fields exist even if API misses them" on the two
  projections.
\<close>

definition completeRec :: "string \<Rightarrow> string \<Rightarrow> jsval \<Rightarrow> js_error + jsval" where
  "completeRec fbRevenue fbCustomers rec =
     (if nullish rec then Inl typeError
      else Inr (JObj
        (AList.update ''projectedCustomers''
           (js_or (getProp rec ''projectedCustomers'') (JStr fbCustomers))
           (AList.update ''projectedRevenue''
              (js_or (getProp rec ''projectedRevenue'') (JStr fbRevenue))
              (spread rec)))))"

definition recommendation ::
  "string \<Rightarrow> string \<Rightarrow> string \<Rightarrow> string \<Rightarrow> string \<Rightarrow> string list \<Rightarrow> string \<Rightarrow> string \<Rightarrow> string \<Rightarrow> jsval"
where
  "recommendation title priority impact effort why how expectedOutcome projectedRevenue
     projectedCustomers =
     JObj [(''title'', JStr title), (''priority'', JStr priority), (''impact'', JStr impact),
           (''effort'', JStr effort), (''why'', JStr why), (''how'', strs how),
           (''expectedOutcome'', JStr expectedOutcome),
           (''projectedRevenue'', JStr projectedRevenue),
           (''projectedCustomers'', JStr projectedCustomers)]"

subsection \<open>createSafeReport\<close>

text \<open>
  The repository holds two versions of \<open>createSafeReport\<close>. Both build one object
  literal of sixteen sections; each section of the literal is a definition here, named
  after its key, and \<open>createSafeReport\<close> puts them together in the literal's order.
  The version \<open>createSafeReport(data, url, perfScore, currency, screenshot)\<close>, with the
  score multiplier logic, has the suffix \<open>_001\<close>; the version
  \<open>createSafeReport(data, url, perfScore, currency)\<close>, with six default
  recommendations, has the suffix \<open>_000\<close>. Five sections are the same text in both
  and carry no suffix.

  The month and year read from the clock,
  \<open>new Date().toLocaleDateString('en-US', ...).toUpperCase()\<close>, is the argument
  \<open>dateStr\<close>. The \<open>try\<close> blocks of the \<open>_001\<close> version's \<open>get\<close> and \<open>getArray\<close> have
  nothing to catch: the walk reads a property only of a truthy value.

  Three steps of the literal can throw, and they are outside any \<open>try\<close>: the conversion
  \<open>Number(get(data, 'executiveSummary.overallScore', ...))\<close> of the executive summary,
  the map over the recommendations, and the same conversion again in the final summary.
  \<open>createSafeReport\<close> runs them in the literal's order; the sections
  \<open>executiveSummary\<close> and \<open>finalSummary\<close> take the number converted as their argument
  \<open>overallScore\<close>.
\<close>

definition businessIntelligence :: "builtins \<Rightarrow> jsval \<Rightarrow> string \<Rightarrow> jsval" where
  "businessIntelligence bi data domain =
     JObj [
      (''companyProfile'', getArray data [''businessIntelligence'', ''companyProfile'']
         (rows [''item'', ''details'']
            [[''Legal Name'', toUpperCase bi domain], [''Founded'', ''N/A''],
             [''Team Size'', ''N/A''], [''Service Area'', ''Global'']])),
      (''businessModel'', getArray data [''businessIntelligence'', ''businessModel'']
         (rows [''element'', ''information'']
            [[''Target Market'', ''Premium B2B''], [''Pricing Strategy'', ''Value-Based''],
             [''Revenue Streams'', ''Direct Client Projects'']])),
      (''valueProposition'', get data [''businessIntelligence'', ''valueProposition'']
         (JStr ''Delivering technically superior digital experiences.'')),
      (''differentiationClaims'',
         getArray data [''businessIntelligence'', ''differentiationClaims'']
           (strs [''Technical Excellence'', ''Rapid Scaling''])),
      (''gapAnalysis'', getArray data [''businessIntelligence'', ''gapAnalysis'']
         (strs [''Digital Presence maturity does not match service quality.''])),
      (''onlinePresence'', JObj [
        (''websiteTech'',
           get data [''businessIntelligence'', ''onlinePresence'', ''websiteTech'']
             (JStr ''Modern Architecture'')),
        (''socialMedia'',
           getArray data [''businessIntelligence'', ''onlinePresence'', ''socialMedia'']
             (rows [''platform'', ''status'']
                [[''LinkedIn'', ''Active''], [''Instagram'', ''Not Present'']]))])]"

definition conversionInsights :: "jsval \<Rightarrow> jsval" where
  "conversionInsights data =
     JObj [
      (''ctaVisibility'', get data [''conversionInsights'', ''ctaVisibility''] (JStr ''7/10'')),
      (''primaryCtas'', getArray data [''conversionInsights'', ''primaryCtas'']
         (strs [''Get Started'', ''Free Audit'', ''Contact Expert''])),
      (''leadGeneration'', getArray data [''conversionInsights'', ''leadGeneration'']
         (rows [''element'', ''status'']
            [[''Contact Forms'', ''Present''], [''Phone Prominence'', ''Moderate''],
             [''Email Signup'', ballot_x @ '' Missing'']])),
      (''frictionPoints'', getArray data [''conversionInsights'', ''frictionPoints'']
         (strs [''Lack of trust badges near forms.'', ''Multi-step form complexity.''])),
      (''trustSignals'', getArray data [''conversionInsights'', ''trustSignals'']
         (rows [''type'', ''status'']
            [[''Testimonials'', check_mark @ '' Found''],
             [''Case Studies'', ballot_x @ '' Missing''],
             [''Client Logos'', check_mark @ '' Present''],
             [''Privacy Policy'', check_mark @ '' Present'']]))]"

definition seoMarketing :: "jsval \<Rightarrow> jsval" where
  "seoMarketing data =
     JObj [
      (''keywords'', getArray data [''seoMarketing'', ''keywords'']
         (strs [''Innovation'', ''B2B Solutions'', ''Market Leader''])),
      (''localSeo'', get data [''seoMarketing'', ''localSeo'']
         (JStr ''Present but lacks local review density.'')),
      (''contentMarketing'', getArray data [''seoMarketing'', ''contentMarketing'']
         (rows [''aspect'', ''status'']
            [[''Blog Status'', ''Abandoned''], [''Educational Value'', ''Low''],
             [''Thought Leadership'', ''Developing'']])),
      (''contentTypes'', getArray data [''seoMarketing'', ''contentTypes'']
         (strs [''Blog'', ''Case Studies'', ''Whitepapers'']))]"

definition competitivePositioning :: "jsval \<Rightarrow> jsval" where
  "competitivePositioning data =
     JObj [
      (''positioningStatement'',
         get data [''competitivePositioning'', ''positioningStatement'']
           (JStr ''The reliable technical partner for scaling enterprises.'')),
      (''differentiation'', get data [''competitivePositioning'', ''differentiation'']
         (JStr ''Technical precision and rapid turnaround.'')),
      (''industryComparison'',
         getArray data [''competitivePositioning'', ''industryComparison'']
           (rows [''metric'', ''rating'']
              [[''Sophistication'', ''Above Average''], [''Price Point'', ''Premium'']])),
      (''marketGaps'', getArray data [''competitivePositioning'', ''marketGaps'']
         (strs [''Lack of interactive pricing tools.'', ''Minimal video case studies.'']))]"

definition mobileExperience :: "jsval \<Rightarrow> jsval" where
  "mobileExperience data =
     JObj [
      (''analysis'', getArray data [''mobileExperience'', ''analysis'']
         (rows [''aspect'', ''rating'']
            [[''Touch Targets'', ''Adequate''], [''Navigation'', ''Good''],
             [''Page Speed'', ''Moderate''], [''CTA Visibility'', ''Visible'']])),
      (''issues'', getArray data [''mobileExperience'', ''issues'']
         (strs [''LCP over 3s.'', ''Horizontal scroll issues on smaller devices.'']))]"

text \<open>The version with the score multiplier logic.\<close>

definition titlePage_001 ::
  "builtins \<Rightarrow> jsval \<Rightarrow> string \<Rightarrow> string \<Rightarrow> jsval \<Rightarrow> string \<Rightarrow> jsval"
where
  "titlePage_001 bi data url dateStr screenshot domain =
     JObj [
      (''reportTitle'', JStr ''Website Audit Pro''),
      (''subTitle'', get data [''titlePage'', ''subTitle'']
         (JStr ''Professional Business & Website Analysis'')),
      (''websiteName'', get data [''titlePage'', ''websiteName''] (JStr (toUpperCase bi domain))),
      (''businessType'', get data [''titlePage'', ''businessType''] (JStr ''Digital Business'')),
      (''url'', JStr url),
      (''date'', JStr dateStr),
      (''preparedBy'', JStr ''AI STUDIERS''),
      (''preparedFor'', JStr ''STRATEGIC PARTNER''),
      (''clientCompany'', JStr (toUpperCase bi domain)),
      (''screenshot'',
         js_or (js_or screenshot (optProp (optProp data ''titlePage'') ''screenshot''))
           (JStr []))]"

definition roiAnalysis_001 :: "jsval \<Rightarrow> number \<Rightarrow> string \<Rightarrow> jsval" where
  "roiAnalysis_001 data perfScore symb =
     JObj [
      (''estimatedLostRevenue'', JStr (revenueRisk symb perfScore)),
      (''potentialConversionIncrease'',
         get data [''roiAnalysis'', ''potentialConversionIncrease''] (JStr ''15-22%'')),
      (''customerLifetimeValueImpact'',
         get data [''roiAnalysis'', ''customerLifetimeValueImpact'']
           (JStr ''Critical Strategic Risk'')),
      (''summary'', get data [''roiAnalysis'', ''summary'']
         (JStr ''Technical friction and brand positioning gaps are directly impacting your bottom line.''))]"

definition executiveSummary_001 :: "number \<Rightarrow> jsval \<Rightarrow> number \<Rightarrow> jsval" where
  "executiveSummary_001 overallScore data perfScore =
     JObj [
      (''overallScore'', JNum overallScore),
      (''grade'', get data [''executiveSummary'', ''grade'']
         (if num_gt perfScore (Fin 80) then JStr ''A-'' else JStr ''B'')),
      (''categoryScores'', getArray data [''executiveSummary'', ''categoryScores'']
         (rows [''category'', ''score'']
            [[''Technical'', ''8/10''], [''Design & UX'', ''7/10''],
             [''Content'', ''6/10''], [''SEO'', ''8/10''],
             [''Conversion'', ''5/10''], [''Mobile'', ''7/10''],
             [''Trust'', ''6/10''], [''Clarity'', ''7/10'']])),
      (''keyFindings'', getArray data [''executiveSummary'', ''keyFindings'']
         (strs [''Page load times on mobile exceed the 3-second threshold.'',
                ''Differentiation missing.'', ''Typography inconsistent.'',
                ''Trust signals missing.'', ''Mobile nav issues.''])),
      (''immediateActions'', getArray data [''executiveSummary'', ''immediateActions'']
         (strs [''Optimize hero assets.'', ''Restructure header.'', ''Fix layout shifts.'']))]"

definition technicalAudit_001 :: "jsval \<Rightarrow> jsval" where
  "technicalAudit_001 data =
     JObj [
      (''performance'', getArray data [''technicalAudit'', ''performance'']
         (strs [''HTTPS/SSL Secure: ACTIVE'', ''Mobile Responsiveness: OPTIMIZED'',
                ''Page Load Speed: MODERATE'', ''Browser Compatibility: MODERN''])),
      (''siteStructure'', JObj [
        (''navigationClarity'',
           get data [''technicalAudit'', ''siteStructure'', ''navigationClarity'']
             (JStr ''8/10'')),
        (''menuItems'', get data [''technicalAudit'', ''siteStructure'', ''menuItems'']
           (JStr ''HOME | SERVICES | PORTFOLIO | ABOUT | CONTACT'')),
        (''contactAccessibility'',
           get data [''technicalAudit'', ''siteStructure'', ''contactAccessibility'']
             (JStr ''High - Fixed Header CTA''))]),
      (''seoTechnical'', getArray data [''technicalAudit'', ''seoTechnical'']
         (rows [''element'', ''status'']
            [[''Page Title'', ''Optimized''], [''Meta Description'', ''Present''],
             [''URL Structure'', ''Clean''], [''Sitemap Present'', check_mark],
             [''Robots.txt'', check_mark], [''Schema Markup'', ballot_x]]))]"

definition contentAudit_001 :: "jsval \<Rightarrow> jsval" where
  "contentAudit_001 data =
     JObj [
      (''homepageAnalysis'', JObj [
        (''firstImpression'',
           get data [''contentAudit'', ''homepageAnalysis'', ''firstImpression'']
             (JStr ''Professional aesthetic with clear focal points.'')),
        (''valueCommunication'',
           get data [''contentAudit'', ''homepageAnalysis'', ''valueCommunication'']
             (JStr ''Moderate.'')),
        (''heroSection'', get data [''contentAudit'', ''homepageAnalysis'', ''heroSection'']
           (JStr ''WE BUILD DIGITAL FUTURES'')),
        (''primaryCTA'', get data [''contentAudit'', ''homepageAnalysis'', ''primaryCTA'']
           (JStr ''START YOUR PROJECT''))]),
      (''pageInventory'', getArray data [''contentAudit'', ''pageInventory'']
         (rows [''page'', ''status'', ''quality'', ''notes'']
            [[''About Page'', ''Present'', ''7/10'', ''Lacks team personality.''],
             [''Services Page'', ''Present'', ''9/10'', ''Comprehensive breakdown.''],
             [''Contact Page'', ''Present'', ''8/10'', ''Clear form.'']])),
      (''contentQuality'', getArray data [''contentAudit'', ''contentQuality'']
         (rows [''aspect'', ''rating'']
            [[''Writing Quality'', ''EXCELLENT''], [''Content Depth'', ''SURFACE-LEVEL''],
             [''Industry Authority'', ''DEVELOPING''],
             [''Content Freshness'', ''OCCASIONAL UPDATES'']])),
      (''visualDesign'', getArray data [''contentAudit'', ''visualDesign'']
         (rows [''aspect'', ''details'']
            [[''Design Era'', ''Modern 2024-25''],
             [''Brand Consistency'', ''Strong Palette Control''],
             [''Typography'', ''Professional Sans-Serif''],
             [''Imagery Quality'', ''High-quality Assets'']]))]"

definition criticalIssues_001 :: "jsval \<Rightarrow> jsval" where
  "criticalIssues_001 data =
     JObj [
      (''high'', getArray data [''criticalIssues'', ''high'']
         (rows [''title'', ''desc'']
            [[''LCP Failure'',
              ''Hero image is not optimized, causing significant render delay.''],
             [''Form Friction'', ''Validation errors are not clear on small screens.'']])),
      (''medium'', getArray data [''criticalIssues'', ''medium'']
         (rows [''title'', ''desc''] [[''Branding Gaps'', ''Inconsistent logo usage.'']])),
      (''low'', getArray data [''criticalIssues'', ''low'']
         (rows [''title'', ''desc'']
            [[''Meta Density'', ''Keywords could be better optimized.'']]))]"

definition growthOpportunities_001 :: "jsval \<Rightarrow> jsval" where
  "growthOpportunities_001 data =
     JObj [
      (''quickWins'', getArray data [''growthOpportunities'', ''quickWins'']
         (rows [''title'', ''metric'']
            [[''Favicon Update'', ''Brand''], [''SSL Check'', ''Trust'']])),
      (''strategic'', getArray data [''growthOpportunities'', ''strategic'']
         (rows [''title'', ''metric''] [[''Interactive Audit Tool'', ''Leads'']])),
      (''longTerm'', getArray data [''growthOpportunities'', ''longTerm'']
         (rows [''title'', ''metric''] [[''Multi-market SEO'', ''Traffic'']]))]"

definition competitiveIntelligence_001 :: "jsval \<Rightarrow> jsval" where
  "competitiveIntelligence_001 data =
     JObj [
      (''competitorAnalysis'',
         getArray data [''competitiveIntelligence'', ''competitorAnalysis'']
           (rows [''name'', ''known'', ''description'']
              [[''Industry Leader A'', ''Known Competitor'',
                ''Aggressive pricing and high content output.''],
               [''Direct Rival B'', ''Known Competitor'',
                ''Minimalist approach, focus on luxury market.'']])),
      (''advantages'', getArray data [''competitiveIntelligence'', ''advantages'']
         (strs [''Superior technical stack'', ''Faster deployment cycles'',
                ''Personalized client service model'']))]"

definition finalSummary_001 :: "number \<Rightarrow> jsval \<Rightarrow> number \<Rightarrow> jsval" where
  "finalSummary_001 overallScore data perfScore =
     JObj [
      (''overallScore'', JNum overallScore),
      (''breakdown'', getArray data [''finalSummary'', ''breakdown'']
         (rows [''category'', ''score'']
            [[''TECHNICAL'', ''8/10''], [''DESIGN & UX'', ''7/10''],
             [''CONTENT'', ''6/10''], [''SEO'', ''8/10''],
             [''CONVERSION'', ''5/10''], [''MOBILE'', ''7/10''],
             [''TRUST'', ''6/10''], [''CLARITY'', ''7/10'']])),
      (''summaryText'', get data [''finalSummary'', ''summaryText'']
         (JStr ''Your digital ecosystem shows significant promise, but technical hurdles in performance and conversion clarity are currently capping your growth. Implementing the high-priority recommendations will likely yield immediate ROI.''))]"

definition actionPlan_001 :: "jsval \<Rightarrow> jsval" where
  "actionPlan_001 data =
     getArray data [''actionPlan'']
       (JArr [JObj [(''step'', JNum (Fin 1)), (''action'', JStr ''Fix LCP''),
                    (''owner'', JStr ''Dev''), (''timeline'', JStr ''Week 1'')]])"

definition recommendations_001 :: "jsval \<Rightarrow> string \<Rightarrow> js_error + jsval list" where
  "recommendations_001 data symb =
     mapE (completeRec ''High Impact'' ''+5-10%'')
       (elems (getArray data [''recommendations'']
          (JArr [recommendation ''Optimize Hero Assets'' ''9/10'' ''High'' ''Low''
                   ''Current assets delay page visibility.''
                   [''Apply WebP formats'', ''Set explicit dimensions'']
                   ''30% faster LCP'' (symb @ ''5k'') ''+10%''])))"

definition createSafeReport_001 ::
  "builtins \<Rightarrow> string \<Rightarrow> jsval \<Rightarrow> string \<Rightarrow> number \<Rightarrow> string \<Rightarrow> jsval \<Rightarrow> js_error + jsval"
where
  "createSafeReport_001 bi dateStr data url perfScore currency screenshot =
    (let domain = domainOf url; symb = symOf bi currency in
     bindE (toNumber (toNum bi) (get data [''executiveSummary'', ''overallScore'']
                                   (JNum (math_max perfScore (Fin 65))))) (\<lambda>overallScore.
     bindE (recommendations_001 data symb) (\<lambda>recs.
     bindE (toNumber (toNum bi) (get data [''executiveSummary'', ''overallScore'']
                                   (JNum (math_max perfScore (Fin 65))))) (\<lambda>finalScore.
       Inr (JObj [
        (''titlePage'', titlePage_001 bi data url dateStr screenshot domain),
        (''roiAnalysis'', roiAnalysis_001 data perfScore symb),
        (''executiveSummary'', executiveSummary_001 overallScore data perfScore),
        (''businessIntelligence'', businessIntelligence bi data domain),
        (''technicalAudit'', technicalAudit_001 data),
        (''contentAudit'', contentAudit_001 data),
        (''conversionInsights'', conversionInsights data),
        (''seoMarketing'', seoMarketing data),
        (''competitivePositioning'', competitivePositioning data),
        (''mobileExperience'', mobileExperience data),
        (''criticalIssues'', criticalIssues_001 data),
        (''recommendations'', JArr recs),
        (''growthOpportunities'', growthOpportunities_001 data),
        (''competitiveIntelligence'', competitiveIntelligence_001 data),
        (''finalSummary'', finalSummary_001 finalScore data perfScore),
        (''actionPlan'', actionPlan_001 data)])))))"

text \<open>The version with six default recommendations.\<close>

definition titlePage_000 :: "builtins \<Rightarrow> jsval \<Rightarrow> string \<Rightarrow> string \<Rightarrow> string \<Rightarrow> jsval" where
  "titlePage_000 bi data url dateStr domain =
     JObj [
      (''reportTitle'', JStr ''Website Audit Pro''),
      (''subTitle'', get data [''titlePage'', ''subTitle'']
         (JStr ''Professional Business & Website Analysis'')),
      (''websiteName'', get data [''titlePage'', ''websiteName''] (JStr (toUpperCase bi domain))),
      (''businessType'', get data [''titlePage'', ''businessType''] (JStr ''Digital Business'')),
      (''url'', JStr url),
      (''date'', JStr dateStr),
      (''preparedBy'', JStr ''AI STUDIERS''),
      (''preparedFor'', JStr ''STRATEGIC PARTNER''),
      (''clientCompany'', JStr (toUpperCase bi domain)),
      (''screenshot'',
         js_or (optProp (optProp data ''titlePage'') ''screenshot'') (JStr []))]"

definition roiAnalysis_000 :: "jsval \<Rightarrow> string \<Rightarrow> jsval" where
  "roiAnalysis_000 data symb =
     JObj [
      (''estimatedLostRevenue'', get data [''roiAnalysis'', ''estimatedLostRevenue'']
         (JStr (symb @ ''45,000 - '' @ symb @ ''85,000 / yr''))),
      (''potentialConversionIncrease'',
         get data [''roiAnalysis'', ''potentialConversionIncrease''] (JStr ''15-22%'')),
      (''customerLifetimeValueImpact'',
         get data [''roiAnalysis'', ''customerLifetimeValueImpact'']
           (JStr ''Critical Strategic Risk'')),
      (''summary'', get data [''roiAnalysis'', ''summary'']
         (JStr ''Technical friction and brand positioning gaps are directly impacting your bottom line.''))]"

definition executiveSummary_000 :: "number \<Rightarrow> jsval \<Rightarrow> number \<Rightarrow> jsval" where
  "executiveSummary_000 overallScore data perfScore =
     JObj [
      (''overallScore'', JNum overallScore),
      (''grade'', get data [''executiveSummary'', ''grade'']
         (if num_gt perfScore (Fin 80) then JStr ''A-'' else JStr ''B'')),
      (''categoryScores'', getArray data [''executiveSummary'', ''categoryScores'']
         (rows [''category'', ''score'']
            [[''Technical'', ''8/10''], [''Design & UX'', ''7/10''],
             [''Content'', ''6/10''], [''SEO'', ''8/10''],
             [''Conversion'', ''5/10''], [''Mobile'', ''7/10''],
             [''Trust'', ''6/10''], [''Clarity'', ''7/10'']])),
      (''keyFindings'', getArray data [''executiveSummary'', ''keyFindings'']
         (strs [''Page load times on mobile exceed the 3-second threshold.'',
                ''Value proposition lacks differentiation from primary competitors.'',
                ''Inconsistent typography and CTA styling dilutes brand authority.'',
                ''Trust signals (case studies) are missing from the primary path.'',
                ''Mobile navigation menu obscures high-priority contact information.''])),
      (''immediateActions'', getArray data [''executiveSummary'', ''immediateActions'']
         (strs [''Optimize hero assets to reduce LCP by ~1.5s.'',
                ''Restructure header to prioritize the unique value proposition.'',
                ''Fix layout shifts (CLS) on service landing pages.'']))]"

definition technicalAudit_000 :: "jsval \<Rightarrow> jsval" where
  "technicalAudit_000 data =
     JObj [
      (''performance'', getArray data [''technicalAudit'', ''performance'']
         (strs [''HTTPS/SSL Secure: ACTIVE'', ''Mobile Responsiveness: OPTIMIZED'',
                ''Page Load Speed: MODERATE (2.4s)'', ''Browser Compatibility: MODERN''])),
      (''siteStructure'', JObj [
        (''navigationClarity'',
           get data [''technicalAudit'', ''siteStructure'', ''navigationClarity'']
             (JStr ''8/10'')),
        (''menuItems'', get data [''technicalAudit'', ''siteStructure'', ''menuItems'']
           (JStr ''HOME | SERVICES | PORTFOLIO | ABOUT | CONTACT'')),
        (''contactAccessibility'',
           get data [''technicalAudit'', ''siteStructure'', ''contactAccessibility'']
             (JStr ''High - Fixed Header CTA''))]),
      (''seoTechnical'', getArray data [''technicalAudit'', ''seoTechnical'']
         (rows [''element'', ''status'']
            [[''Page Title'', ''Optimized''], [''Meta Description'', ''Present''],
             [''URL Structure'', ''Clean''], [''Sitemap Present'', check_mark],
             [''Robots.txt'', check_mark], [''Schema Markup'', ballot_x]]))]"

definition contentAudit_000 :: "jsval \<Rightarrow> jsval" where
  "contentAudit_000 data =
     JObj [
      (''homepageAnalysis'', JObj [
        (''firstImpression'',
           get data [''contentAudit'', ''homepageAnalysis'', ''firstImpression'']
             (JStr ''Professional aesthetic with clear focal points.'')),
        (''valueCommunication'',
           get data [''contentAudit'', ''homepageAnalysis'', ''valueCommunication'']
             (JStr ''Moderate.'')),
        (''heroSection'', get data [''contentAudit'', ''homepageAnalysis'', ''heroSection'']
           (JStr ''WE BUILD DIGITAL FUTURES'')),
        (''primaryCTA'', get data [''contentAudit'', ''homepageAnalysis'', ''primaryCTA'']
           (JStr ''START YOUR PROJECT''))]),
      (''pageInventory'', getArray data [''contentAudit'', ''pageInventory'']
         (rows [''page'', ''status'', ''quality'', ''notes'']
            [[''About Page'', ''Present'', ''7/10'', ''Lacks team personality.''],
             [''Services Page'', ''Present'', ''9/10'', ''Comprehensive breakdown.''],
             [''Contact Page'', ''Present'', ''8/10'', ''Clear form.'']])),
      (''contentQuality'', getArray data [''contentAudit'', ''contentQuality'']
         (rows [''aspect'', ''rating'']
            [[''Writing Quality'', ''Excellent''], [''Content Depth'', ''Surface-level''],
             [''Industry Authority'', ''Developing''],
             [''Content Freshness'', ''Occasional Updates'']])),
      (''visualDesign'', getArray data [''contentAudit'', ''visualDesign'']
         (rows [''aspect'', ''details'']
            [[''Design Era'', ''Modern 2024-25''],
             [''Brand Consistency'', ''Strong Palette Control''],
             [''Typography'', ''Professional Sans-Serif''],
             [''Imagery Quality'', ''High-quality Assets'']]))]"

definition criticalIssues_000 :: "jsval \<Rightarrow> jsval" where
  "criticalIssues_000 data =
     JObj [
      (''high'', getArray data [''criticalIssues'', ''high'']
         (rows [''title'', ''desc'']
            [[''LCP Failure'',
              ''Hero image is not optimized, causing significant render delay.''],
             [''Form Friction'', ''Validation errors are not clear on small screens.'']])),
      (''medium'', getArray data [''criticalIssues'', ''medium'']
         (rows [''title'', ''desc''] [[''Branding Gaps'', ''Footer fonts differ from primary brand styles.'']])),
      (''low'', getArray data [''criticalIssues'', ''low'']
         (rows [''title'', ''desc'']
            [[''Meta Density'', ''Description tags lack local keyword saturation.'']]))]"

definition growthOpportunities_000 :: "jsval \<Rightarrow> jsval" where
  "growthOpportunities_000 data =
     JObj [
      (''quickWins'', getArray data [''growthOpportunities'', ''quickWins'']
         (rows [''title'', ''metric'']
            [[''Favicon Update'', ''Brand consistency''], [''SSL Check'', ''Trust signal'']])),
      (''strategic'', getArray data [''growthOpportunities'', ''strategic'']
         (rows [''title'', ''metric''] [[''Interactive Audit Tool'', ''+25% Lead Gen'']])),
      (''longTerm'', getArray data [''growthOpportunities'', ''longTerm'']
         (rows [''title'', ''metric''] [[''Multi-market SEO'', ''+100% Reach'']]))]"

definition competitiveIntelligence_000 :: "jsval \<Rightarrow> jsval" where
  "competitiveIntelligence_000 data =
     JObj [
      (''competitorAnalysis'',
         getArray data [''competitiveIntelligence'', ''competitorAnalysis'']
           (rows [''name'', ''known'', ''description'']
              [[''Industry Leader A'', ''Known'',
                ''Aggressive pricing and high content output.''],
               [''Direct Rival B'', ''Known'',
                ''Minimalist approach, focus on luxury market.'']])),
      (''advantages'', getArray data [''competitiveIntelligence'', ''advantages'']
         (strs [''Superior technical stack'', ''Personalized client service model'',
                ''Faster deployment cycles'']))]"

definition finalSummary_000 :: "number \<Rightarrow> jsval \<Rightarrow> number \<Rightarrow> jsval" where
  "finalSummary_000 overallScore data perfScore =
     JObj [
      (''overallScore'', JNum overallScore),
      (''breakdown'', getArray data [''finalSummary'', ''breakdown'']
         (rows [''category'', ''score'']
            [[''Technical'', ''8/10''], [''Design & UX'', ''7/10''],
             [''Content'', ''6/10''], [''SEO'', ''8/10''],
             [''Conversion'', ''5/10''], [''Mobile'', ''7/10''],
             [''Trust'', ''6/10''], [''Clarity'', ''7/10'']])),
      (''summaryText'', get data [''finalSummary'', ''summaryText'']
         (JStr ''Your digital ecosystem shows significant promise, but technical hurdles in performance and conversion clarity are currently capping your growth. Implementing the high-priority recommendations will likely yield immediate ROI.''))]"

definition actionPlan_000 :: "jsval \<Rightarrow> jsval" where
  "actionPlan_000 data =
     getArray data [''actionPlan'']
       (JArr [JObj [(''step'', JNum (Fin 1)), (''action'', JStr ''Implement Hero Fixes''),
                    (''owner'', JStr ''Dev''), (''timeline'', JStr ''Week 1'')]])"

definition recommendations_000 :: "jsval \<Rightarrow> string \<Rightarrow> js_error + jsval list" where
  "recommendations_000 data symb =
     mapE (completeRec ''High Impact Potential'' ''+5-10% Uplift'')
       (elems (getArray data [''recommendations'']
          (JArr [recommendation ''Optimize Hero Assets'' ''9/10'' ''High'' ''Low''
                   ''Current assets delay page visibility.''
                   [''Apply WebP formats'', ''Set explicit dimensions'']
                   ''30% faster LCP''
                   (symb @ ''2,500 - '' @ symb @ ''5,000 / yr'') ''+5-8% Retention'',
                 recommendation ''Implement Schema Markup'' ''8/10'' ''High'' ''Medium''
                   ''Search engines struggle to parse rich data.''
                   [''Add JSON-LD for Organization'', ''Tag Service pages'']
                   ''Higher organic CTR''
                   (symb @ ''1,200 - '' @ symb @ ''3,000 / yr'') ''+12% Organic Traffic'',
                 recommendation ''Simplify Contact Forms'' ''8/10'' ''High'' ''Low''
                   ''High field count causes drop-offs.''
                   [''Reduce fields to 3'', ''Add auto-fill'']
                   ''15% More Inquiries''
                   (symb @ ''10,000+ / yr'') ''+15% Leads'',
                 recommendation ''Add Social Proof'' ''7/10'' ''Medium'' ''Low''
                   ''Users lack trust signals on landing pages.''
                   [''Embed Google Reviews'', ''Show client logos'']
                   ''Lower Bounce Rate''
                   (symb @ ''4,000 - '' @ symb @ ''8,000 / yr'') ''+5% Conv. Rate'',
                 recommendation ''Fix Mobile Nav'' ''7/10'' ''Medium'' ''Medium''
                   ''Menu is hard to tap on small screens.''
                   [''Increase tap targets'', ''Simplify hierarchy'']
                   ''Better Mobile UX''
                   ''Indirect Growth'' ''Reduced Churn'',
                 recommendation ''Create Lead Magnet'' ''6/10'' ''Medium'' ''High''
                   ''No value exchange for early-stage visitors.''
                   [''Write industry whitepaper'', ''Setup email automation'']
                   ''Build Email List''
                   (symb @ ''5,000+ Long Term'') ''+25 Monthly Subscribers''])))"

definition createSafeReport_000 ::
  "builtins \<Rightarrow> string \<Rightarrow> jsval \<Rightarrow> string \<Rightarrow> number \<Rightarrow> string \<Rightarrow> js_error + jsval"
where
  "createSafeReport_000 bi dateStr data url perfScore currency =
    (let domain = domainOf url; symb = symOf bi currency in
     bindE (toNumber (toNum bi) (get data [''executiveSummary'', ''overallScore'']
                                   (JNum (math_max perfScore (Fin 65))))) (\<lambda>overallScore.
     bindE (recommendations_000 data symb) (\<lambda>recs.
     bindE (toNumber (toNum bi) (get data [''executiveSummary'', ''overallScore'']
                                   (JNum (math_max perfScore (Fin 65))))) (\<lambda>finalScore.
       Inr (JObj [
        (''titlePage'', titlePage_000 bi data url dateStr domain),
        (''roiAnalysis'', roiAnalysis_000 data symb),
        (''executiveSummary'', executiveSummary_000 overallScore data perfScore),
        (''businessIntelligence'', businessIntelligence bi data domain),
        (''technicalAudit'', technicalAudit_000 data),
        (''contentAudit'', contentAudit_000 data),
        (''conversionInsights'', conversionInsights data),
        (''seoMarketing'', seoMarketing data),
        (''competitivePositioning'', competitivePositioning data),
        (''mobileExperience'', mobileExperience data),
        (''criticalIssues'', criticalIssues_000 data),
        (''recommendations'', JArr recs),
        (''growthOpportunities'', growthOpportunities_000 data),
        (''competitiveIntelligence'', competitiveIntelligence_000 data),
        (''finalSummary'', finalSummary_000 finalScore data perfScore),
        (''actionPlan'', actionPlan_000 data)])))))"

text \<open>Reading a field of a value by its path, \<open>r.a.b\<close>, for values whose sections exist.\<close>

definition sel :: "jsval \<Rightarrow> string list \<Rightarrow> jsval" where
  "sel v path = foldl getProp v path"

text \<open>
  When \<open>createSafeReport\<close> returns: the conversion of the overall score does not throw,
  and no entry of the candidate's recommendations is null or undefined, so that the map
  over the recommendations does not throw.
\<close>

definition scoreOk :: "builtins \<Rightarrow> jsval \<Rightarrow> number \<Rightarrow> bool" where
  "scoreOk bi data perfScore =
     (case toNumber (toNum bi) (get data [''executiveSummary'', ''overallScore'']
                                  (JNum (math_max perfScore (Fin 65)))) of
        Inl e \<Rightarrow> False
      | Inr n \<Rightarrow> True)"

definition recsOk :: "jsval \<Rightarrow> bool" where
  "recsOk data = list_all (\<lambda>x. \<not> nullish x) (elems (walk data [''recommendations'']))"

definition accepted :: "builtins \<Rightarrow> jsval \<Rightarrow> number \<Rightarrow> bool" where
  "accepted bi data perfScore = (scoreOk bi data perfScore \<and> recsOk data)"

section \<open>The AuditReport schema\<close>

text \<open>
  The interface \<open>AuditReport\<close> of \<open>types.ts\<close>, as a description of values: what the
  erased TypeScript types say of the object that \<open>createSafeReport\<close> returns.
\<close>

datatype ty = TString | TNumber | TArray ty | TObject "(string \<times> ty) list" | TOptional ty

fun conforms :: "ty \<Rightarrow> jsval \<Rightarrow> bool" where
  "conforms TString v = (case v of JStr s \<Rightarrow> True | _ \<Rightarrow> False)"
| "conforms TNumber v = (case v of JNum n \<Rightarrow> True | _ \<Rightarrow> False)"
| "conforms (TArray t) v = (case v of JArr xs \<Rightarrow> list_all (conforms t) xs | _ \<Rightarrow> False)"
| "conforms (TObject fs) v =
     (case v of JObj kvs \<Rightarrow> list_all (\<lambda>f. conforms (snd f) (getProp v (fst f))) fs | _ \<Rightarrow> False)"
| "conforms (TOptional t) v = (v = JUndefined \<or> conforms t v)"

definition strings :: "string list \<Rightarrow> ty" where
  "strings ks = TObject (map (\<lambda>k. (k, TString)) ks)"

definition Recommendation :: ty where
  "Recommendation =
     TObject [(''title'', TString), (''priority'', TString), (''impact'', TString),
              (''effort'', TString), (''why'', TString), (''how'', TArray TString),
              (''expectedOutcome'', TString), (''projectedRevenue'', TString),
              (''projectedCustomers'', TString)]"

definition reportType :: "ty \<Rightarrow> ty" where
  "reportType recommendation_ty = TObject [
     (''titlePage'', TObject [
        (''reportTitle'', TString), (''subTitle'', TString), (''websiteName'', TString),
        (''url'', TString), (''date'', TString), (''preparedBy'', TString),
        (''preparedFor'', TString), (''clientCompany'', TString), (''businessType'', TString),
        (''screenshot'', TOptional TString)]),
     (''roiAnalysis'', strings [''estimatedLostRevenue'', ''potentialConversionIncrease'',
        ''customerLifetimeValueImpact'', ''summary'']),
     (''executiveSummary'', TObject [
        (''overallScore'', TNumber), (''grade'', TString),
        (''categoryScores'', TArray (strings [''category'', ''score''])),
        (''keyFindings'', TArray TString), (''immediateActions'', TArray TString)]),
     (''businessIntelligence'', TObject [
        (''companyProfile'', TArray (strings [''item'', ''details''])),
        (''businessModel'', TArray (strings [''element'', ''information''])),
        (''valueProposition'', TString),
        (''differentiationClaims'', TArray TString), (''gapAnalysis'', TArray TString),
        (''onlinePresence'', TObject [
           (''websiteTech'', TString),
           (''socialMedia'', TArray (strings [''platform'', ''status'']))])]),
     (''technicalAudit'', TObject [
        (''performance'', TArray TString),
        (''siteStructure'', strings [''navigationClarity'', ''menuItems'',
           ''contactAccessibility'']),
        (''seoTechnical'', TArray (strings [''element'', ''status'']))]),
     (''contentAudit'', TObject [
        (''homepageAnalysis'', strings [''firstImpression'', ''valueCommunication'',
           ''heroSection'', ''primaryCTA'']),
        (''pageInventory'', TArray (strings [''page'', ''status'', ''quality'', ''notes''])),
        (''contentQuality'', TArray (strings [''aspect'', ''rating''])),
        (''visualDesign'', TArray (strings [''aspect'', ''details'']))]),
     (''conversionInsights'', TObject [
        (''ctaVisibility'', TString), (''primaryCtas'', TArray TString),
        (''leadGeneration'', TArray (strings [''element'', ''status''])),
        (''frictionPoints'', TArray TString),
        (''trustSignals'', TArray (strings [''type'', ''status'']))]),
     (''seoMarketing'', TObject [
        (''keywords'', TArray TString), (''localSeo'', TString),
        (''contentMarketing'', TArray (strings [''aspect'', ''status''])),
        (''contentTypes'', TArray TString)]),
     (''competitivePositioning'', TObject [
        (''positioningStatement'', TString), (''differentiation'', TString),
        (''industryComparison'', TArray (strings [''metric'', ''rating''])),
        (''marketGaps'', TArray TString)]),
     (''mobileExperience'', TObject [
        (''analysis'', TArray (strings [''aspect'', ''rating''])),
        (''issues'', TArray TString)]),
     (''criticalIssues'', TObject [
        (''high'', TArray (strings [''title'', ''desc''])),
        (''medium'', TArray (strings [''title'', ''desc''])),
        (''low'', TArray (strings [''title'', ''desc'']))]),
     (''recommendations'', TArray recommendation_ty),
     (''growthOpportunities'', TObject [
        (''quickWins'', TArray (strings [''title'', ''metric''])),
        (''strategic'', TArray (strings [''title'', ''metric''])),
        (''longTerm'', TArray (strings [''title'', ''metric'']))]),
     (''competitiveIntelligence'', TObject [
        (''competitorAnalysis'', TArray (strings [''name'', ''known'', ''description''])),
        (''advantages'', TArray TString)]),
     (''finalSummary'', TObject [
        (''overallScore'', TNumber),
        (''breakdown'', TArray (strings [''category'', ''score''])),
        (''summaryText'', TString)]),
     (''actionPlan'', TArray (TObject [
        (''step'', TNumber), (''action'', TString), (''owner'', TString),
        (''timeline'', TString)]))]"

definition AuditReport :: ty where
  "AuditReport = reportType Recommendation"

text \<open>The leaves of a type, each with its path: a leaf is a string, a number or a list.\<close>

fun leaves :: "ty \<Rightarrow> (string list \<times> ty) list" where
  "leaves (TObject fs) =
     concat (map (\<lambda>f. map (\<lambda>l. (fst f # fst l, snd l)) (leaves (snd f))) fs)"
| "leaves (TOptional t) = leaves t"
| "leaves t = [([], t)]"

section \<open>The performance-data fetcher\<close>

text \<open>
  \<open>fetchRealAuditData(url, geminiKey, pageSpeedKey)\<close> of the performance service. The
  network is an argument: \<open>net targetUrl key\<close> is how the request for \<open>targetUrl\<close> with
  the key \<open>key\<close> ends. The request is rejected (a network failure, or the abort that the
  timer of 60000 ms sends while the request is pending, which rejects it with an
  \<open>AbortError\<close>), or a response arrives, with its \<open>ok\<close> flag, its status text and what
  reading its body with \<open>res.json()\<close> does: it yields the parsed value, it rejects
  because the body is not JSON, or it never settles. The timer is cleared as soon as the
  response has arrived, so nothing ends the wait for a body that stalls; a call that
  never returns has the result \<open>None\<close>.
\<close>

datatype body = Parsed jsval | Unparsable js_error | Stalled

datatype response = Response (ok: bool) (statusText: string) (json: body)

datatype fetch_result = Rejected js_error | Resolved response

text \<open>A filter whose predicate may throw.\<close>

fun filterE :: "('a \<Rightarrow> 'e + bool) \<Rightarrow> 'a list \<Rightarrow> 'e + 'a list" where
  "filterE p [] = Inr []"
| "filterE p (x # xs) =
     (case p x of
        Inl e \<Rightarrow> Inl e
      | Inr b \<Rightarrow> (case filterE p xs of
                   Inl e \<Rightarrow> Inl e
                 | Inr ys \<Rightarrow> Inr (if b then x # ys else ys)))"

text \<open>
  \<open>Object.values(v)\<close>, which throws on null and undefined, and \<open>v.length\<close> of a value
  that is neither.
\<close>

definition objectValues :: "jsval \<Rightarrow> js_error + jsval list" where
  "objectValues v =
     (case v of
        JUndefined \<Rightarrow> Inl typeError
      | JNull \<Rightarrow> Inl typeError
      | JObj kvs \<Rightarrow> Inr (map snd kvs)
      | JArr xs \<Rightarrow> Inr xs
      | JStr s \<Rightarrow> Inr (map JStr (codeUnits s))
      | _ \<Rightarrow> Inr [])"

definition lengthOf :: "jsval \<Rightarrow> jsval" where
  "lengthOf v =
     (case v of
        JArr xs \<Rightarrow> JNum (Fin (of_nat (length xs)))
      | JStr s \<Rightarrow> JNum (Fin (of_nat (length (codeUnits s))))
      | _ \<Rightarrow> getProp v ''length'')"

text \<open>
  \<open>Array.prototype.sort(cmp)\<close> is a stable sort: for a comparator that orders its
  arguments consistently the result is the one this insertion gives. With two or more
  elements every element is an argument of some call of the comparator, so the sort
  throws exactly when the comparator throws on an element; with fewer the comparator is
  not called. The sign of a difference of two numbers is exact: positive, negative, or
  neither when the numbers are equal or the difference is NaN.
\<close>

definition diff_sign :: "number \<Rightarrow> number \<Rightarrow> int" where
  "diff_sign x y = (if num_less y x then 1 else if num_less x y then - 1 else 0)"

fun insertCmp :: "('a \<Rightarrow> 'a \<Rightarrow> 'e + int) \<Rightarrow> 'a \<Rightarrow> 'a list \<Rightarrow> 'e + 'a list" where
  "insertCmp cmp x [] = Inr [x]"
| "insertCmp cmp x (y # ys) =
     bindE (cmp x y) (\<lambda>c.
       if c > 0 then bindE (insertCmp cmp x ys) (\<lambda>zs. Inr (y # zs)) else Inr (x # y # ys))"

definition sortCmp :: "('a \<Rightarrow> 'a \<Rightarrow> 'e + int) \<Rightarrow> 'a list \<Rightarrow> 'e + 'a list" where
  "sortCmp cmp xs = foldr (\<lambda>x sorted. bindE sorted (insertCmp cmp x)) xs (Inr [])"

text \<open>The literal \<open>0.9\<close> is the double nearest to nine tenths.\<close>

definition double_0_9 :: rat where
  "double_0_9 = 8106479329266893 / 9007199254740992"

text \<open>
  The filter predicate
  \<open>audit.details?.type === 'opportunity' && (audit.score !== null && audit.score < 0.9)\<close>,
  whose comparison converts the score to a number only when the two tests before it
  hold; the sort key \<open>audit.details?.overallSavingsMs || 0\<close> as a number; the comparator
  \<open>(a, b) => (b.details?.overallSavingsMs || 0) - (a.details?.overallSavingsMs || 0)\<close>,
  whose subtraction converts the left operand, then the right one; and the mapping of an
  audit to an opportunity.
\<close>

definition isOpportunity :: "builtins \<Rightarrow> jsval \<Rightarrow> js_error + bool" where
  "isOpportunity bi audit =
     bindE (propE audit ''details'') (\<lambda>details.
       if optProp details ''type'' \<noteq> JStr ''opportunity'' then Inr False
       else if getProp audit ''score'' = JNull then Inr False
       else bindE (toNumber (toNum bi) (getProp audit ''score'')) (\<lambda>score.
              Inr (num_less score (Fin double_0_9))))"

definition savingsMs :: "builtins \<Rightarrow> jsval \<Rightarrow> js_error + number" where
  "savingsMs bi audit =
     toNumber (toNum bi)
       (js_or (optProp (getProp audit ''details'') ''overallSavingsMs'') (JNum (Fin 0)))"

definition bySavings :: "builtins \<Rightarrow> jsval \<Rightarrow> jsval \<Rightarrow> js_error + int" where
  "bySavings bi a b =
     bindE (savingsMs bi b) (\<lambda>left.
     bindE (savingsMs bi a) (\<lambda>right.
       Inr (diff_sign left right)))"

definition toOpportunity :: "jsval \<Rightarrow> jsval" where
  "toOpportunity audit =
     JObj [(''title'', getProp audit ''title''),
           (''description'', getProp audit ''description''),
           (''savings'', js_or (getProp audit ''displayValue'') (JStr []))]"

definition opportunitiesOf :: "builtins \<Rightarrow> jsval \<Rightarrow> js_error + jsval list" where
  "opportunitiesOf bi audits =
     bindE (objectValues audits) (\<lambda>vs.
     bindE (filterE (isOpportunity bi) vs) (\<lambda>found.
     bindE (sortCmp (bySavings bi) found) (\<lambda>ranked.
       Inr (map toOpportunity (take 5 ranked)))))"

text \<open>\<open>getFieldMetric\<close>, for a \<open>loadingExperience\<close> that is truthy.\<close>

definition getFieldMetric :: "jsval \<Rightarrow> string \<Rightarrow> jsval" where
  "getFieldMetric loadingExperience metricName =
     (let metric = optProp (getProp loadingExperience ''metrics'') metricName
      in if \<not> truthy metric then JNull
         else JObj [(''score'', getProp metric ''category''),
                    (''value'', getProp metric ''percentile'')])"

text \<open>
  The body of the \<open>try\<close> block from the payload on: \<open>audits\<close> and \<open>categories\<close> are read
  from \<open>data.lighthouseResult\<close>, the opportunities are computed, and the record is built,
  its fields in the order of the literal. After \<open>Object.values(audits)\<close> has returned,
  \<open>audits\<close> is neither null nor undefined. \<open>scoreOf\<close> is
  \<open>Math.round((categories[name]?.score || 0) * 100)\<close> for \<open>categories\<close> that are neither.
\<close>

definition scoreOf :: "builtins \<Rightarrow> jsval \<Rightarrow> string \<Rightarrow> js_error + jsval" where
  "scoreOf bi categories name =
     bindE (toNumber (toNum bi) (js_or (optProp (getProp categories name) ''score'') (JNum (Fin 0))))
       (\<lambda>score. Inr (JNum (roundTimes100 bi score)))"

definition mapPayload :: "builtins \<Rightarrow> jsval \<Rightarrow> js_error + jsval" where
  "mapPayload bi data =
     bindE (propE data ''lighthouseResult'') (\<lambda>lighthouseResult.
     bindE (propE lighthouseResult ''audits'') (\<lambda>audits.
     bindE (propE lighthouseResult ''categories'') (\<lambda>categories.
     let loadingExperience = js_or (getProp data ''loadingExperience'') (JObj []) in
     bindE (opportunitiesOf bi audits) (\<lambda>opportunities.
     bindE (propE categories ''performance'') (\<lambda>performance.
     bindE (scoreOf bi categories ''performance'') (\<lambda>performanceScore.
     bindE (scoreOf bi categories ''seo'') (\<lambda>seoScore.
     bindE (scoreOf bi categories ''accessibility'') (\<lambda>accessibilityScore.
     bindE (scoreOf bi categories ''best-practices'') (\<lambda>bestPracticesScore.
     bindE (toNumber (toNum bi)
              (js_or (optProp (getProp audits ''total-byte-weight'') ''numericValue'')
                 (JNum (Fin 0)))) (\<lambda>totalBytes.
       Inr (JObj [
         (''performanceScore'', performanceScore),
         (''seoScore'', seoScore),
         (''accessibilityScore'', accessibilityScore),
         (''bestPracticesScore'', bestPracticesScore),
         (''lcp'', js_or (optProp (getProp audits ''largest-contentful-paint'') ''numericValue'')
                    (JNum (Fin 0))),
         (''cls'', js_or (optProp (getProp audits ''cumulative-layout-shift'') ''numericValue'')
                    (JNum (Fin 0))),
         (''fcp'', js_or (optProp (getProp audits ''first-contentful-paint'') ''numericValue'')
                    (JNum (Fin 0))),
         (''totalSize'', JNum (roundDiv1024 bi totalBytes)),
         (''fieldLcp'', getFieldMetric loadingExperience ''LARGEST_CONTENTFUL_PAINT_MS''),
         (''fieldInp'', getFieldMetric loadingExperience ''INTERACTION_TO_NEXT_PAINT''),
         (''fieldCls'', getFieldMetric loadingExperience ''CUMULATIVE_LAYOUT_SHIFT_SCORE''),
         (''screenshot'',
            js_or (optProp (optProp (getProp audits ''final-screenshot'') ''details'') ''data'')
              JNull),
         (''metaDescription'',
            if optProp (getProp audits ''meta-description'') ''score'' = JNum (Fin 1)
            then JStr ''Present'' else JStr ''Missing''),
         (''documentTitle'',
            if optProp (getProp audits ''document-title'') ''score'' = JNum (Fin 1)
            then getProp (getProp audits ''document-title'') ''displayValue''
            else JStr ''Missing''),
         (''imageAltMissing'',
            js_or (let items = optProp (optProp (getProp audits ''image-alt'') ''details'') ''items''
                   in if nullish items then JUndefined else lengthOf items)
              (JNum (Fin 0))),
         (''https'', JBool (optProp (getProp audits ''is-on-https'') ''score'' = JNum (Fin 1))),
         (''viewport'', JBool (optProp (getProp audits ''viewport'') ''score'' = JNum (Fin 1))),
         (''opportunities'', JArr opportunities),
         (''errors'', JArr [])])))))))))))"

text \<open>
  The error thrown for a response that is not ok,
  \<open>new Error(`PageSpeed API Error: ${errorBody.error?.message || res.statusText}`)\<close>,
  where \<open>errorBody\<close> is the parsed body, or \<open>{}\<close> if the body is not JSON. Reading
  \<open>errorBody.error\<close> and writing the message into the template may throw themselves.
\<close>

definition apiError :: "builtins \<Rightarrow> string \<Rightarrow> jsval \<Rightarrow> js_error + jsval" where
  "apiError bi status errorBody =
     bindE (propE errorBody ''error'') (\<lambda>err.
     bindE (toString bi (js_or (optProp err ''message'') (JStr status))) (\<lambda>message.
       Inl (Thrown ''Error'' (''PageSpeed API Error: '' @ message))))"

text \<open>
  The \<open>try\<close> block: the request, the check of \<open>res.ok\<close>, and the mapping of the payload.
  Its result is \<open>None\<close> when the body that it waits for never settles.
\<close>

definition tryBlock ::
  "builtins \<Rightarrow> (string \<Rightarrow> string \<Rightarrow> fetch_result) \<Rightarrow> string \<Rightarrow> string \<Rightarrow> (js_error + jsval) option"
where
  "tryBlock bi net targetUrl activeKey =
     (case net targetUrl activeKey of
        Rejected e \<Rightarrow> Some (Inl e)
      | Resolved res \<Rightarrow>
          if \<not> ok res then
            (case json res of
               Stalled \<Rightarrow> None
             | Unparsable e \<Rightarrow> Some (apiError bi (statusText res) (JObj []))
             | Parsed errorBody \<Rightarrow> Some (apiError bi (statusText res) errorBody))
          else
            (case json res of
               Stalled \<Rightarrow> None
             | Unparsable e \<Rightarrow> Some (Inl e)
             | Parsed data \<Rightarrow> Some (mapPayload bi data)))"

text \<open>The record of the \<open>catch\<close> branch.\<close>

definition failedData :: "js_error \<Rightarrow> jsval" where
  "failedData e = JObj [
     (''performanceScore'', JNum (Fin 0)), (''seoScore'', JNum (Fin 0)),
     (''accessibilityScore'', JNum (Fin 0)), (''bestPracticesScore'', JNum (Fin 0)),
     (''lcp'', JNum (Fin 0)), (''cls'', JNum (Fin 0)), (''fcp'', JNum (Fin 0)),
     (''totalSize'', JNum (Fin 0)), (''fieldLcp'', JNull), (''fieldInp'', JNull),
     (''fieldCls'', JNull), (''screenshot'', JNull), (''metaDescription'', JNull),
     (''documentTitle'', JNull), (''imageAltMissing'', JNum (Fin 0)),
     (''https'', JBool False), (''viewport'', JBool False), (''opportunities'', JArr []),
     (''errors'', JArr [JStr (if ename e = ''AbortError''
                              then ''PageSpeed Analysis Timed Out (Skipped)''
                              else emessage e)])]"

text \<open>
  The key \<open>(pageSpeedKey?.trim()) || (geminiKey?.trim()) || (process.env.API_KEY?.trim())\<close>:
  \<open>pageSpeedKey\<close> and the key of the environment may be undefined.
\<close>

definition trimmed :: "string option \<Rightarrow> string" where
  "trimmed k = (case k of None \<Rightarrow> [] | Some s \<Rightarrow> trim s)"

definition resolveKey :: "string \<Rightarrow> string option \<Rightarrow> string option \<Rightarrow> string" where
  "resolveKey geminiKey pageSpeedKey envKey =
     (if trimmed pageSpeedKey \<noteq> [] then trimmed pageSpeedKey
      else if trim geminiKey \<noteq> [] then trim geminiKey
      else trimmed envKey)"

text \<open>The url of the request: trimmed, with \<open>https://\<close> put before it if it names no scheme.\<close>

definition targetUrlOf :: "string \<Rightarrow> string" where
  "targetUrlOf url =
     (if \<not> startsWith (trim url) ''http://'' \<and> \<not> startsWith (trim url) ''https://''
      then ''https://'' @ trim url else trim url)"

text \<open>
  \<open>fetchRealAuditData\<close>: with no key it throws before the \<open>try\<close> block; otherwise
  whatever the \<open>try\<close> block throws is caught and turned into the record of the \<open>catch\<close>
  branch.
\<close>

definition fetchRealAuditData ::
  "builtins \<Rightarrow> (string \<Rightarrow> string \<Rightarrow> fetch_result) \<Rightarrow> string option \<Rightarrow> string \<Rightarrow> string \<Rightarrow> string option \<Rightarrow> (js_error + jsval) option"
where
  "fetchRealAuditData bi net envKey url geminiKey pageSpeedKey =
     (let targetUrl = targetUrlOf url;
          activeKey = resolveKey geminiKey pageSpeedKey envKey
      in if activeKey = [] then
           Some (Inl (Thrown ''Error''
                  ''No API Key found. Please configure process.env.API_KEY or use Settings.''))
         else (case tryBlock bi net targetUrl activeKey of
                 None \<Rightarrow> None
               | Some (Inl e) \<Rightarrow> Some (Inr (failedData e))
               | Some (Inr r) \<Rightarrow> Some (Inr r)))"

section \<open>The model fallback queue\<close>

text \<open>
  The generation step of \<open>handleAudit\<close>. The generation endpoint is an argument:
  \<open>gen m\<close> is how the request to the model \<open>m\<close> ends, with the time in milliseconds,
  counted from the call, at which it does. \<open>timeoutPromise(ms, promise)\<close> sets a timer
  of \<open>ms\<close> milliseconds and settles as the promise does if that happens first, and
  rejects with the time-out error otherwise; the request is started before the timer, so
  a promise that settles at \<open>ms\<close> exactly is still first. The two versions of
  \<open>timeoutPromise\<close> differ in the text of the error.
\<close>

datatype promise = Fulfils nat jsval | Rejects nat js_error | Pending

definition timeoutError_000 :: "nat \<Rightarrow> js_error" where
  "timeoutError_000 ms =
     Thrown ''Error'' (''Analysis Request Timed Out ('' @ show_nat ((ms + 500) div 1000) @
       ''s limit). The model is busy or the prompt is too complex.'')"

definition timeoutError_001 :: "nat \<Rightarrow> js_error" where
  "timeoutError_001 ms =
     Thrown ''Error'' (''Analysis Request Timed Out ('' @ show_nat ((ms + 500) div 1000) @
       ''s limit). The model is busy.'')"

definition timeoutPromise :: "js_error \<Rightarrow> nat \<Rightarrow> promise \<Rightarrow> js_error + jsval" where
  "timeoutPromise timedOut ms p =
     (case p of
        Fulfils t v \<Rightarrow> if t \<le> ms then Inr v else Inl timedOut
      | Rejects t e \<Rightarrow> if t \<le> ms then Inl e else Inl timedOut
      | Pending \<Rightarrow> Inl timedOut)"

definition timeoutPromise_000 :: "nat \<Rightarrow> promise \<Rightarrow> js_error + jsval" where
  "timeoutPromise_000 ms p = timeoutPromise (timeoutError_000 ms) ms p"

definition timeoutPromise_001 :: "nat \<Rightarrow> promise \<Rightarrow> js_error + jsval" where
  "timeoutPromise_001 ms p = timeoutPromise (timeoutError_001 ms) ms p"

text \<open>
  The version of \<open>handleAudit\<close> that has the automatic fallback (the one that calls the
  \<open>createSafeReport\<close> of four arguments).
\<close>

definition attemptGeneration :: "(string \<Rightarrow> promise) \<Rightarrow> string \<Rightarrow> js_error + jsval" where
  "attemptGeneration gen modelToTry = timeoutPromise_000 180000 (gen modelToTry)"

definition fallbackModels :: "string list" where
  "fallbackModels = [''gemini-3-flash-preview'', ''gemini-2.5-flash'', ''gemini-flash-latest'']"

text \<open>\<open>[...new Set(xs)]\<close>: the first occurrence of each element, in order.\<close>

definition setOrder :: "'a list \<Rightarrow> 'a list" where
  "setOrder xs = foldl (\<lambda>seen x. if x \<in> set seen then seen else seen @ [x]) [] xs"

definition modelQueue :: "string \<Rightarrow> string list" where
  "modelQueue model = model # filter (\<lambda>m. m \<noteq> model) fallbackModels"

definition uniqueQueue :: "string \<Rightarrow> string list" where
  "uniqueQueue model = setOrder (modelQueue model)"

text \<open>
  The loop \<open>for (let i = 0; i < uniqueQueue.length; i++)\<close>, as a recursion on the rest of
  the queue: \<open>i\<close> is the last index exactly when the rest is empty. It returns the models
  attempted, in order, with the response, or the error thrown to the outer \<open>catch\<close>.
  With no model in the queue the loop body does not run and \<open>res\<close> stays undefined.
\<close>

fun tryModels :: "(string \<Rightarrow> promise) \<Rightarrow> string list \<Rightarrow> string list \<times> (js_error + jsval)" where
  "tryModels gen [] = ([], Inr JUndefined)"
| "tryModels gen (currentModel # rest) =
     (case attemptGeneration gen currentModel of
        Inr res \<Rightarrow> ([currentModel], Inr res)
      | Inl e \<Rightarrow>
          if rest = [] then
            ([currentModel],
             Inl (Thrown ''Error'' (''All models failed. Last error: '' @ emessage e)))
          else (let (attempted, r) = tryModels gen rest in (currentModel # attempted, r)))"

definition generate_000 :: "(string \<Rightarrow> promise) \<Rightarrow> string \<Rightarrow> string list \<times> (js_error + jsval)" where
  "generate_000 gen model = tryModels gen (uniqueQueue model)"

text \<open>
  The other version of \<open>handleAudit\<close> (the one that calls the \<open>createSafeReport\<close> of five
  arguments) has no queue: it makes one request, to the selected model, in
  \<open>timeoutPromise(180000, ai.models.generateContent({model, ...}))\<close>, and what that
  throws goes to the outer \<open>catch\<close>.
\<close>

definition generate_001 :: "(string \<Rightarrow> promise) \<Rightarrow> string \<Rightarrow> string list \<times> (js_error + jsval)" where
  "generate_001 gen model = ([model], timeoutPromise_001 180000 (gen model))"

section \<open>Notions used to state the properties\<close>

text \<open>
  What \<open>get\<close> takes for a value that is there, and what \<open>getArray\<close> takes for one.
\<close>

definition present :: "jsval \<Rightarrow> bool" where
  "present v = (v \<noteq> JUndefined \<and> v \<noteq> JNull \<and> v \<noteq> JStr [])"

definition nonEmptyArray :: "jsval \<Rightarrow> bool" where
  "nonEmptyArray v = (case v of JArr xs \<Rightarrow> xs \<noteq> [] | _ \<Rightarrow> False)"

definition isString :: "jsval \<Rightarrow> bool" where
  "isString v = (case v of JStr s \<Rightarrow> True | _ \<Rightarrow> False)"

definition nonEmptyString :: "jsval \<Rightarrow> bool" where
  "nonEmptyString v = (case v of JStr s \<Rightarrow> s \<noteq> [] | _ \<Rightarrow> False)"

definition fields :: "ty \<Rightarrow> (string \<times> ty) list" where
  "fields t = (case t of TObject fs \<Rightarrow> fs | _ \<Rightarrow> [])"

definition isArrayTy :: "ty \<Rightarrow> bool" where
  "isArrayTy t = (case t of TArray e \<Rightarrow> True | _ \<Rightarrow> False)"

text \<open>The two projections of a recommendation entry.\<close>

definition projectionsTruthy :: "jsval \<Rightarrow> bool" where
  "projectionsTruthy e =
     (truthy (getProp e ''projectedRevenue'') \<and> truthy (getProp e ''projectedCustomers''))"

definition projectionsNonEmptyStrings :: "jsval \<Rightarrow> bool" where
  "projectionsNonEmptyStrings e =
     (nonEmptyString (getProp e ''projectedRevenue'')
      \<and> nonEmptyString (getProp e ''projectedCustomers''))"

text \<open>Each projection of a candidate entry is a string, or missing, null or otherwise falsy.\<close>

definition projectionsStringOrFalsy :: "jsval \<Rightarrow> bool" where
  "projectionsStringOrFalsy c =
     ((\<not> truthy (getProp c ''projectedRevenue'') \<or> isString (getProp c ''projectedRevenue''))
      \<and> (\<not> truthy (getProp c ''projectedCustomers'')
         \<or> isString (getProp c ''projectedCustomers'')))"

text \<open>
  The string leaves that the version with the score multiplier logic does not read from
  the candidate with \<open>get\<close>: the fixed title-page fields, the screenshot, and the
  revenue risk.
\<close>

definition derivedPaths_001 :: "string list list" where
  "derivedPaths_001 =
     [[''titlePage'', ''reportTitle''], [''titlePage'', ''url''], [''titlePage'', ''date''],
      [''titlePage'', ''preparedBy''], [''titlePage'', ''preparedFor''],
      [''titlePage'', ''clientCompany''], [''titlePage'', ''screenshot''],
      [''roiAnalysis'', ''estimatedLostRevenue'']]"

text \<open>
  What the report takes over from a candidate is of the declared type. At a string leaf
  read with \<open>get\<close>, a value that is there is a string; at a list leaf read with
  \<open>getArray\<close>, a non-empty array is a list of the declared type. Each entry of supplied
  recommendations is an object whose seven fields other than the projections are of
  their types and whose projections are strings or falsy. The screenshot that is taken,
  the argument if it is truthy and else the candidate's if that is truthy, is a string.
\<close>

definition suppliedOk :: "ty \<Rightarrow> jsval \<Rightarrow> bool" where
  "suppliedOk t w =
     (case t of
        TString \<Rightarrow> present w \<longrightarrow> conforms t w
      | TArray e \<Rightarrow> nonEmptyArray w \<longrightarrow> conforms t w
      | _ \<Rightarrow> True)"

definition entryOk :: "jsval \<Rightarrow> bool" where
  "entryOk c =
     (conforms
        (TObject (filter (\<lambda>f. fst f \<notin> {''projectedRevenue'', ''projectedCustomers''})
                    (fields Recommendation))) c
      \<and> projectionsStringOrFalsy c)"

definition screenshotOk :: "jsval \<Rightarrow> jsval \<Rightarrow> bool" where
  "screenshotOk screenshot data =
     (if truthy screenshot then isString screenshot
      else truthy (optProp (optProp data ''titlePage'') ''screenshot'') \<longrightarrow>
           isString (optProp (optProp data ''titlePage'') ''screenshot''))"

definition wellTyped :: "jsval \<Rightarrow> jsval \<Rightarrow> bool" where
  "wellTyped data screenshot =
     (list_all (\<lambda>l. fst l \<in> set derivedPaths_001 \<or> fst l = [''recommendations'']
                   \<or> suppliedOk (snd l) (walk data (fst l)))
        (leaves AuditReport)
      \<and> list_all entryOk (elems (walk data [''recommendations'']))
      \<and> screenshotOk screenshot data)"

text \<open>
  The output recommendations \<open>recs\<close> complete the candidate's value \<open>cand\<close> at
  \<open>recommendations\<close>, with the fallback strings \<open>a\<close> and \<open>b\<close> and \<open>n\<close> default entries.
\<close>

definition completes :: "string \<Rightarrow> string \<Rightarrow> nat \<Rightarrow> jsval \<Rightarrow> jsval list \<Rightarrow> bool" where
  "completes a b n cand recs =
     ((\<not> nonEmptyArray cand \<longrightarrow> length recs = n)
      \<and> (nonEmptyArray cand \<longrightarrow>
           length recs = length (elems cand)
           \<and> map (\<lambda>e. getProp e ''projectedRevenue'') recs =
               map (\<lambda>c. js_or (getProp c ''projectedRevenue'') (JStr a)) (elems cand)
           \<and> map (\<lambda>e. getProp e ''projectedCustomers'') recs =
               map (\<lambda>c. js_or (getProp c ''projectedCustomers'') (JStr b)) (elems cand))
      \<and> list_all projectionsTruthy recs
      \<and> (list_all projectionsStringOrFalsy (elems cand) \<longrightarrow>
           list_all projectionsNonEmptyStrings recs))"

text \<open>
  An audit entry is flagged as an opportunity: its details type is 'opportunity' and its
  score is not null and, as a number, below 0.9 (on doubles, being below 0.9 and being
  below the double that the literal denotes are the same). The estimated savings of an entry are
  its \<open>details.overallSavingsMs\<close> as a number, and 0 when that is missing (or otherwise
  falsy). An entry ranks before another when its estimated savings are not less.
\<close>

definition flagged :: "builtins \<Rightarrow> jsval \<Rightarrow> bool" where
  "flagged bi audit =
     (optProp (getProp audit ''details'') ''type'' = JStr ''opportunity''
      \<and> getProp audit ''score'' \<noteq> JNull
      \<and> (case toNumber (toNum bi) (getProp audit ''score'') of
           Inl e \<Rightarrow> False
         | Inr score \<Rightarrow> num_less score (Fin double_0_9)))"

definition estimatedSavings :: "builtins \<Rightarrow> jsval \<Rightarrow> js_error + number" where
  "estimatedSavings bi audit =
     (let ms = optProp (getProp audit ''details'') ''overallSavingsMs''
      in if truthy ms then toNumber (toNum bi) ms else Inr (Fin 0))"

definition comparable :: "builtins \<Rightarrow> jsval \<Rightarrow> bool" where
  "comparable bi audit =
     (case estimatedSavings bi audit of Inl e \<Rightarrow> False | Inr ms \<Rightarrow> ms \<noteq> NaN)"

definition ranksBefore :: "builtins \<Rightarrow> jsval \<Rightarrow> jsval \<Rightarrow> bool" where
  "ranksBefore bi a b =
     (case (estimatedSavings bi a, estimatedSavings bi b) of
        (Inr x, Inr y) \<Rightarrow> \<not> num_less x y
      | _ \<Rightarrow> False)"

text \<open>The fields of the interface \<open>CrawlData\<close> of \<open>types.ts\<close>.\<close>

definition crawlDataFields :: "string list" where
  "crawlDataFields =
     [''performanceScore'', ''seoScore'', ''accessibilityScore'', ''bestPracticesScore'',
      ''lcp'', ''cls'', ''fcp'', ''totalSize'', ''fieldLcp'', ''fieldInp'', ''fieldCls'',
      ''screenshot'', ''metaDescription'', ''documentTitle'', ''imageAltMissing'', ''https'',
      ''viewport'', ''opportunities'', ''errors'']"

text \<open>A report with another date on its title page.\<close>

definition withDate :: "string \<Rightarrow> jsval \<Rightarrow> jsval" where
  "withDate d r =
     (case r of
        JObj kvs \<Rightarrow>
          JObj (AList.update ''titlePage''
                  (case getProp r ''titlePage'' of
                     JObj tp \<Rightarrow> JObj (AList.update ''date'' (JStr d) tp)
                   | v \<Rightarrow> v) kvs)
      | v \<Rightarrow> v)"

text \<open>
  An engine for the concrete inputs: it converts the numerals that the inputs use, throws
  on objects, and knows the inherited member \<open>toString\<close>.
\<close>

definition bi0 :: builtins where
  "bi0 = \<lparr>toNum = (\<lambda>v. case v of JObj kvs \<Rightarrow> Inl (Thrown ''TypeError'' ''Cannot convert object to primitive value'')
                           | JStr s \<Rightarrow> Inr (if s = ''85'' then Fin 85 else NaN)
                           | _ \<Rightarrow> Inr NaN),
           toStr = (\<lambda>v. Inr ''[object Object]''),
           upper = (\<lambda>s. s),
           inheritedText = (\<lambda>k. if k = ''toString'' then Some ''function toString() { [native code] }'' else None),
           roundTimes100 = (\<lambda>n. case n of Fin q \<Rightarrow> Fin (of_int (floor (q * 100 + 1 / 2))) | _ \<Rightarrow> n),
           roundDiv1024 = (\<lambda>n. case n of Fin q \<Rightarrow> Fin (of_int (floor (q / 1024 + 1 / 2))) | _ \<Rightarrow> n)\<rparr>"

section \<open>Properties of the report normaliser\<close>

subsection \<open>Reading paths, and when createSafeReport returns\<close>

lemma sel_Nil [simp]: "sel v [] = v"
  by (simp add: sel_def)

lemma sel_Cons [simp]: "sel v (k # ks) = sel (getProp v k) ks"
  by (simp add: sel_def)

lemma walk_Nil: "walk v [] = v"
  by (simp add: walk_def)

lemma walk_Cons:
  "walk v (k # ks) = walk (if truthy v then getProp v k else v) ks"
  by (simp add: walk_def)

lemma mapE_completeRec:
  "list_all (\<lambda>x. \<not> nullish x) xs \<Longrightarrow>
   mapE (completeRec a b) xs = Inr (map (\<lambda>x. projr (completeRec a b x)) xs)"
  by (induction xs) (auto simp: completeRec_def)

lemma mapE_completeRec_Inl:
  "\<not> list_all (\<lambda>x. \<not> nullish x) xs \<Longrightarrow> mapE (completeRec a b) xs = Inl typeError"
  by (induction xs) (auto simp: completeRec_def split: sum.splits)

lemma not_nullish_recommendation [simp]: "\<not> nullish (recommendation a b c d e f g h i)"
  by (simp add: nullish_def recommendation_def)

lemma elems_getArray_ok:
  "recsOk data \<Longrightarrow> list_all (\<lambda>x. \<not> nullish x) fb \<Longrightarrow>
   list_all (\<lambda>x. \<not> nullish x) (elems (getArray data [''recommendations''] (JArr fb)))"
  by (auto simp: recsOk_def getArray_def elems_def Let_def split: jsval.splits)

lemma elems_getArray_bad:
  "\<not> recsOk data \<Longrightarrow>
   \<not> list_all (\<lambda>x. \<not> nullish x) (elems (getArray data [''recommendations''] (JArr fb)))"
  by (auto simp: recsOk_def getArray_def elems_def Let_def split: jsval.splits)

lemma recommendations_001_ok:
  "recsOk data \<Longrightarrow> \<exists>recs. recommendations_001 data symb = Inr recs"
  unfolding recommendations_001_def
  by (rule exI, rule mapE_completeRec, rule elems_getArray_ok) simp_all

lemma recommendations_000_ok:
  "recsOk data \<Longrightarrow> \<exists>recs. recommendations_000 data symb = Inr recs"
  unfolding recommendations_000_def
  by (rule exI, rule mapE_completeRec, rule elems_getArray_ok) simp_all

lemma recommendations_001_bad:
  "\<not> recsOk data \<Longrightarrow> recommendations_001 data symb = Inl typeError"
  unfolding recommendations_001_def
  by (rule mapE_completeRec_Inl, rule elems_getArray_bad)

lemma recommendations_000_bad:
  "\<not> recsOk data \<Longrightarrow> recommendations_000 data symb = Inl typeError"
  unfolding recommendations_000_def
  by (rule mapE_completeRec_Inl, rule elems_getArray_bad)

text \<open>
  \<open>createSafeReport\<close> returns exactly for the candidates that it accepts: the conversion
  of the overall score does not throw and no entry of the recommendations is null. It
  then returns the object of the sixteen sections.
\<close>

lemma scoreOk_Inr:
  "scoreOk bi data perfScore \<Longrightarrow>
   \<exists>n. toNumber (toNum bi) (get data [''executiveSummary'', ''overallScore'']
                             (JNum (math_max perfScore (Fin 65)))) = Inr n"
  by (auto simp add: scoreOk_def split: sum.splits)

lemma createSafeReport_001_sections:
  assumes "accepted bi data perfScore"
  shows "\<exists>r recs n. createSafeReport_001 bi dateStr data url perfScore currency screenshot = Inr r
    \<and> toNumber (toNum bi) (get data [''executiveSummary'', ''overallScore'']
                            (JNum (math_max perfScore (Fin 65)))) = Inr n
    \<and> recommendations_001 data (symOf bi currency) = Inr recs
    \<and> getProp r ''titlePage'' = titlePage_001 bi data url dateStr screenshot (domainOf url)
    \<and> getProp r ''roiAnalysis'' = roiAnalysis_001 data perfScore (symOf bi currency)
    \<and> getProp r ''executiveSummary'' = executiveSummary_001 n data perfScore
    \<and> getProp r ''businessIntelligence'' = businessIntelligence bi data (domainOf url)
    \<and> getProp r ''technicalAudit'' = technicalAudit_001 data
    \<and> getProp r ''contentAudit'' = contentAudit_001 data
    \<and> getProp r ''conversionInsights'' = conversionInsights data
    \<and> getProp r ''seoMarketing'' = seoMarketing data
    \<and> getProp r ''competitivePositioning'' = competitivePositioning data
    \<and> getProp r ''mobileExperience'' = mobileExperience data
    \<and> getProp r ''criticalIssues'' = criticalIssues_001 data
    \<and> getProp r ''recommendations'' = JArr recs
    \<and> getProp r ''growthOpportunities'' = growthOpportunities_001 data
    \<and> getProp r ''competitiveIntelligence'' = competitiveIntelligence_001 data
    \<and> getProp r ''finalSummary'' = finalSummary_001 n data perfScore
    \<and> getProp r ''actionPlan'' = actionPlan_001 data
    \<and> (\<exists>kvs. r = JObj kvs)"
proof -
  from assms have "scoreOk bi data perfScore"
    by (simp add: accepted_def)
  from scoreOk_Inr [OF this]
  obtain n where "toNumber (toNum bi) (get data [''executiveSummary'', ''overallScore'']
      (JNum (math_max perfScore (Fin 65)))) = Inr n"
    by blast
  moreover from assms have "recsOk data"
    by (simp add: accepted_def)
  from recommendations_001_ok [OF this]
  obtain recs where "recommendations_001 data (symOf bi currency) = Inr recs"
    by blast
  ultimately show ?thesis
    by (simp add: createSafeReport_001_def Let_def bindE_def)
qed

lemma createSafeReport_001_throws:
  assumes "\<not> accepted bi data perfScore"
  shows "\<exists>e. createSafeReport_001 bi dateStr data url perfScore currency screenshot = Inl e"
proof (cases "scoreOk bi data perfScore")
  case False
  then show ?thesis
    by (auto simp add: createSafeReport_001_def Let_def bindE_def scoreOk_def split: sum.splits)
next
  case True
  with assms have "\<not> recsOk data"
    by (simp add: accepted_def)
  then have "recommendations_001 data (symOf bi currency) = Inl typeError"
    by (rule recommendations_001_bad)
  then show ?thesis
    by (auto simp add: createSafeReport_001_def Let_def bindE_def split: sum.splits)
qed

lemma createSafeReport_001_returns:
  "(\<exists>r. createSafeReport_001 bi dateStr data url perfScore currency screenshot = Inr r)
   = accepted bi data perfScore"
  using createSafeReport_001_sections [of bi data perfScore dateStr url currency screenshot]
    createSafeReport_001_throws [of bi data perfScore dateStr url currency screenshot]
  by (cases "accepted bi data perfScore") auto

lemma createSafeReport_000_sections:
  assumes "accepted bi data perfScore"
  shows "\<exists>r recs n. createSafeReport_000 bi dateStr data url perfScore currency = Inr r
    \<and> toNumber (toNum bi) (get data [''executiveSummary'', ''overallScore'']
                            (JNum (math_max perfScore (Fin 65)))) = Inr n
    \<and> recommendations_000 data (symOf bi currency) = Inr recs
    \<and> getProp r ''titlePage'' = titlePage_000 bi data url dateStr (domainOf url)
    \<and> getProp r ''roiAnalysis'' = roiAnalysis_000 data (symOf bi currency)
    \<and> getProp r ''executiveSummary'' = executiveSummary_000 n data perfScore
    \<and> getProp r ''businessIntelligence'' = businessIntelligence bi data (domainOf url)
    \<and> getProp r ''technicalAudit'' = technicalAudit_000 data
    \<and> getProp r ''contentAudit'' = contentAudit_000 data
    \<and> getProp r ''conversionInsights'' = conversionInsights data
    \<and> getProp r ''seoMarketing'' = seoMarketing data
    \<and> getProp r ''competitivePositioning'' = competitivePositioning data
    \<and> getProp r ''mobileExperience'' = mobileExperience data
    \<and> getProp r ''criticalIssues'' = criticalIssues_000 data
    \<and> getProp r ''recommendations'' = JArr recs
    \<and> getProp r ''growthOpportunities'' = growthOpportunities_000 data
    \<and> getProp r ''competitiveIntelligence'' = competitiveIntelligence_000 data
    \<and> getProp r ''finalSummary'' = finalSummary_000 n data perfScore
    \<and> getProp r ''actionPlan'' = actionPlan_000 data
    \<and> (\<exists>kvs. r = JObj kvs)"
proof -
  from assms have "scoreOk bi data perfScore"
    by (simp add: accepted_def)
  from scoreOk_Inr [OF this]
  obtain n where "toNumber (toNum bi) (get data [''executiveSummary'', ''overallScore'']
      (JNum (math_max perfScore (Fin 65)))) = Inr n"
    by blast
  moreover from assms have "recsOk data"
    by (simp add: accepted_def)
  from recommendations_000_ok [OF this]
  obtain recs where "recommendations_000 data (symOf bi currency) = Inr recs"
    by blast
  ultimately show ?thesis
    by (simp add: createSafeReport_000_def Let_def bindE_def)
qed

lemma createSafeReport_000_throws:
  assumes "\<not> accepted bi data perfScore"
  shows "\<exists>e. createSafeReport_000 bi dateStr data url perfScore currency = Inl e"
proof (cases "scoreOk bi data perfScore")
  case False
  then show ?thesis
    by (auto simp add: createSafeReport_000_def Let_def bindE_def scoreOk_def split: sum.splits)
next
  case True
  with assms have "\<not> recsOk data"
    by (simp add: accepted_def)
  then have "recommendations_000 data (symOf bi currency) = Inl typeError"
    by (rule recommendations_000_bad)
  then show ?thesis
    by (auto simp add: createSafeReport_000_def Let_def bindE_def split: sum.splits)
qed

lemma createSafeReport_000_returns:
  "(\<exists>r. createSafeReport_000 bi dateStr data url perfScore currency = Inr r)
   = accepted bi data perfScore"
  using createSafeReport_000_sections [of bi data perfScore dateStr url currency]
    createSafeReport_000_throws [of bi data perfScore dateStr url currency]
  by (cases "accepted bi data perfScore") auto

text \<open>Candidates and arguments used as concrete inputs below.\<close>

lemma recsOk_empty [simp]: "recsOk (JObj [])"
  by (simp add: recsOk_def elems_def walk_def)

lemma accepted_empty [simp]: "accepted bi (JObj []) perfScore"
  by (simp add: accepted_def scoreOk_def get_def walk_def)

lemma toUpperCase_acme: "toUpperCase bi ''acme.io'' = ''ACME.IO''"
proof -
  have "list_all isAscii ''acme.io''"
    by (simp add: isAscii_def)
  moreover have "map upper_char ''acme.io'' = ''ACME.IO''"
    by code_simp
  ultimately show ?thesis
    by (simp add: toUpperCase_def)
qed

lemma domainOf_acme: "domainOf ''https://acme.io'' = ''acme.io''"
  by (simp add: domainOf_def stripScheme_def)

subsection \<open>Fixed title-page fields\<close>

text \<open>
  The domain that \<open>createSafeReport\<close> extracts: after the scheme \<open>https://\<close> or
  \<open>http://\<close>, if the url starts with one, the characters up to the first \<open>/\<close>.
\<close>

lemma takeWhile_host:
  assumes "CHR ''/'' \<notin> set host" and "rest = [] \<or> hd rest = CHR ''/''"
  shows "takeWhile (\<lambda>c. c \<noteq> CHR ''/'') (host @ rest) = host"
proof -
  from assms(1) have "takeWhile (\<lambda>c. c \<noteq> CHR ''/'') (host @ rest) =
      host @ takeWhile (\<lambda>c. c \<noteq> CHR ''/'') rest"
    by (intro takeWhile_append2) auto
  moreover from assms(2) have "takeWhile (\<lambda>c. c \<noteq> CHR ''/'') rest = []"
    by (cases rest) auto
  ultimately show ?thesis
    by simp
qed

lemma startsWith_scheme:
  "startsWith s ''https://'' = (take 8 s = ''https://'')"
  "startsWith s ''http://'' = (take 7 s = ''http://'')"
  by (simp_all add: startsWith_def eval_nat_numeral)

lemma domainOf_host:
  assumes "url = scheme @ host @ rest"
    and "scheme = ''https://'' \<or> scheme = ''http://''
         \<or> (scheme = [] \<and> \<not> startsWith url ''https://'' \<and> \<not> startsWith url ''http://'')"
    and "CHR ''/'' \<notin> set host" and "rest = [] \<or> hd rest = CHR ''/''"
  shows "domainOf url = host"
proof -
  from assms(2) consider
      (https) "scheme = ''https://''"
    | (http) "scheme = ''http://''"
    | (none) "scheme = []" "\<not> startsWith url ''https://''" "\<not> startsWith url ''http://''"
    by blast
  then have "stripScheme url = host @ rest"
  proof cases
    case https
    with assms(1) show ?thesis
      by (simp add: stripScheme_def)
  next
    case http
    with assms(1) show ?thesis
      by (simp add: stripScheme_def)
  next
    case none
    from none(2,3) have "stripScheme url = url"
      unfolding startsWith_scheme stripScheme_def by simp
    with assms(1) none(1) show ?thesis
      by simp
  qed
  with takeWhile_host [OF assms(3,4)] show ?thesis
    by (simp add: domainOf_def)
qed

text \<open>
  Claim C10. Both versions of \<open>createSafeReport\<close>, for every candidate on which they
  return (the only other outcome is a throw, and then there is no report), every
  performance score and every currency: \<open>titlePage.reportTitle\<close> is "Website Audit Pro",
  \<open>titlePage.preparedBy\<close> is "AI STUDIERS", \<open>titlePage.preparedFor\<close> is
  "STRATEGIC PARTNER", \<open>titlePage.url\<close> is the url argument and
  \<open>titlePage.clientCompany\<close> is the domain of the url argument in upper case, whatever
  the candidate holds at these paths. The domain is named by the hypotheses: the url is
  an optional scheme \<open>https://\<close> or \<open>http://\<close>, then a host that holds no \<open>/\<close>, then
  nothing or a rest that starts with \<open>/\<close>; every url has exactly one such reading.
\<close>

theorem title_page_fixed:
  assumes "accepted bi data perfScore"
    and "url = scheme @ host @ rest"
    and "scheme = ''https://'' \<or> scheme = ''http://''
         \<or> (scheme = [] \<and> \<not> startsWith url ''https://'' \<and> \<not> startsWith url ''http://'')"
    and "CHR ''/'' \<notin> set host" and "rest = [] \<or> hd rest = CHR ''/''"
  shows "(\<exists>r. createSafeReport_001 bi dateStr data url perfScore currency screenshot = Inr r
      \<and> sel r [''titlePage'', ''reportTitle''] = JStr ''Website Audit Pro''
      \<and> sel r [''titlePage'', ''preparedBy''] = JStr ''AI STUDIERS''
      \<and> sel r [''titlePage'', ''preparedFor''] = JStr ''STRATEGIC PARTNER''
      \<and> sel r [''titlePage'', ''url''] = JStr url
      \<and> sel r [''titlePage'', ''clientCompany''] = JStr (toUpperCase bi host))
    \<and> (\<exists>r. createSafeReport_000 bi dateStr data url perfScore currency = Inr r
      \<and> sel r [''titlePage'', ''reportTitle''] = JStr ''Website Audit Pro''
      \<and> sel r [''titlePage'', ''preparedBy''] = JStr ''AI STUDIERS''
      \<and> sel r [''titlePage'', ''preparedFor''] = JStr ''STRATEGIC PARTNER''
      \<and> sel r [''titlePage'', ''url''] = JStr url
      \<and> sel r [''titlePage'', ''clientCompany''] = JStr (toUpperCase bi host))"
proof
  note d = domainOf_host [OF assms(2-5)]
  from createSafeReport_001_sections [OF assms(1), of dateStr url currency screenshot]
  obtain r where "createSafeReport_001 bi dateStr data url perfScore currency screenshot = Inr r"
    and "getProp r ''titlePage'' = titlePage_001 bi data url dateStr screenshot (domainOf url)"
    by blast
  then show "\<exists>r. createSafeReport_001 bi dateStr data url perfScore currency screenshot = Inr r
      \<and> sel r [''titlePage'', ''reportTitle''] = JStr ''Website Audit Pro''
      \<and> sel r [''titlePage'', ''preparedBy''] = JStr ''AI STUDIERS''
      \<and> sel r [''titlePage'', ''preparedFor''] = JStr ''STRATEGIC PARTNER''
      \<and> sel r [''titlePage'', ''url''] = JStr url
      \<and> sel r [''titlePage'', ''clientCompany''] = JStr (toUpperCase bi host)"
    by (simp add: titlePage_001_def d)
next
  note d = domainOf_host [OF assms(2-5)]
  from createSafeReport_000_sections [OF assms(1), of dateStr url currency]
  obtain r where "createSafeReport_000 bi dateStr data url perfScore currency = Inr r"
    and "getProp r ''titlePage'' = titlePage_000 bi data url dateStr (domainOf url)"
    by blast
  then show "\<exists>r. createSafeReport_000 bi dateStr data url perfScore currency = Inr r
      \<and> sel r [''titlePage'', ''reportTitle''] = JStr ''Website Audit Pro''
      \<and> sel r [''titlePage'', ''preparedBy''] = JStr ''AI STUDIERS''
      \<and> sel r [''titlePage'', ''preparedFor''] = JStr ''STRATEGIC PARTNER''
      \<and> sel r [''titlePage'', ''url''] = JStr url
      \<and> sel r [''titlePage'', ''clientCompany''] = JStr (toUpperCase bi host)"
    by (simp add: titlePage_000_def d)
qed

text \<open>
  An instance: the candidate supplies its own title, company and url, and the url has a
  path. The company is ACME.IO, the host of the url in upper case, in both versions.
\<close>

theorem title_page_fixed_witness:
  "accepted bi0
     (JObj [(''titlePage'', JObj [(''reportTitle'', JStr ''Mine''),
        (''clientCompany'', JStr ''Me''), (''url'', JStr ''mine.example'')])]) (Fin 72)
   \<and> ''https://acme.io/pricing/plans'' = ''https://'' @ ''acme.io'' @ ''/pricing/plans''
   \<and> CHR ''/'' \<notin> set ''acme.io'' \<and> hd ''/pricing/plans'' = CHR ''/''
   \<and> (\<exists>r. createSafeReport_001 bi0 ''MAY 2025''
          (JObj [(''titlePage'', JObj [(''reportTitle'', JStr ''Mine''),
             (''clientCompany'', JStr ''Me''), (''url'', JStr ''mine.example'')])])
          ''https://acme.io/pricing/plans'' (Fin 72) ''USD'' JNull = Inr r
      \<and> sel r [''titlePage'', ''reportTitle''] = JStr ''Website Audit Pro''
      \<and> sel r [''titlePage'', ''preparedBy''] = JStr ''AI STUDIERS''
      \<and> sel r [''titlePage'', ''preparedFor''] = JStr ''STRATEGIC PARTNER''
      \<and> sel r [''titlePage'', ''url''] = JStr ''https://acme.io/pricing/plans''
      \<and> sel r [''titlePage'', ''clientCompany''] = JStr ''ACME.IO'')
   \<and> (\<exists>r. createSafeReport_000 bi0 ''MAY 2025''
          (JObj [(''titlePage'', JObj [(''reportTitle'', JStr ''Mine''),
             (''clientCompany'', JStr ''Me''), (''url'', JStr ''mine.example'')])])
          ''https://acme.io/pricing/plans'' (Fin 72) ''USD'' = Inr r
      \<and> sel r [''titlePage'', ''reportTitle''] = JStr ''Website Audit Pro''
      \<and> sel r [''titlePage'', ''preparedBy''] = JStr ''AI STUDIERS''
      \<and> sel r [''titlePage'', ''preparedFor''] = JStr ''STRATEGIC PARTNER''
      \<and> sel r [''titlePage'', ''url''] = JStr ''https://acme.io/pricing/plans''
      \<and> sel r [''titlePage'', ''clientCompany''] = JStr ''ACME.IO'')"
proof -
  let ?c = "JObj [(''titlePage'', JObj [(''reportTitle'', JStr ''Mine''),
        (''clientCompany'', JStr ''Me''), (''url'', JStr ''mine.example'')])]"
  have ok: "accepted bi0 ?c (Fin 72)"
    by (simp add: accepted_def scoreOk_def recsOk_def elems_def get_def walk_def)
  have u: "''https://acme.io/pricing/plans'' = ''https://'' @ ''acme.io'' @ ''/pricing/plans''"
    by simp
  have s: "''https://'' = ''https://'' \<or> ''https://'' = ''http://''
      \<or> (''https://'' = [] \<and> \<not> startsWith ''https://acme.io/pricing/plans'' ''https://''
          \<and> \<not> startsWith ''https://acme.io/pricing/plans'' ''http://'')"
    by simp
  have h: "CHR ''/'' \<notin> set ''acme.io''"
    by simp
  have t: "''/pricing/plans'' = [] \<or> hd ''/pricing/plans'' = CHR ''/''"
    by simp
  from title_page_fixed [OF ok u s h t, of "''MAY 2025''" "''USD''" JNull]
  show ?thesis
    using ok by (simp add: toUpperCase_acme)
qed

subsection \<open>Risk tiers\<close>

lemma symOf_table:
  "symOf bi ''USD'' = ''$''" "symOf bi ''GBP'' = [CHR 0xC2, CHR 0xA3]" "symOf bi ''AUD'' = ''A$''"
  "symOf bi ''CAD'' = ''C$''" "symOf bi ''EUR'' = [CHR 0xE2, CHR 0x82, CHR 0xAC]"
  by (simp_all add: symOf_def CURRENCY_SYMBOLS_def)

lemma symOf_other:
  assumes "currency \<notin> {''USD'', ''GBP'', ''AUD'', ''CAD'', ''EUR''}"
  shows "symOf bi currency = (case inheritedText bi currency of Some t \<Rightarrow> t | None \<Rightarrow> ''$'')"
  using assms by (simp add: symOf_def CURRENCY_SYMBOLS_def)

text \<open>
  Claim C7. In the version with the score multiplier logic, whenever \<open>createSafeReport\<close>
  returns, the revenue-risk string \<open>roiAnalysis.estimatedLostRevenue\<close> is computed from
  the performance score by three tiers: a score of 90 or more gives the low band, a
  score from 50 up to but excluding 90 the medium band, a score below 50 the high band.
  Each band is written with the symbol of the selected currency: the symbol that
  \<open>CURRENCY_SYMBOLS\<close> holds for the codes USD, GBP, AUD, CAD and EUR, and the dollar sign
  for any other code, unless that code names a member inherited from
  \<open>Object.prototype\<close>, whose text is written then.
\<close>

theorem risk_tiers:
  assumes "accepted bi data perfScore"
  shows "\<exists>r. createSafeReport_001 bi dateStr data url perfScore currency screenshot = Inr r
    \<and> (num_ge perfScore (Fin 90) \<longrightarrow>
          sel r [''roiAnalysis'', ''estimatedLostRevenue''] =
            JStr (symOf bi currency @ ''0 - '' @ symOf bi currency @ ''5,000 Risk''))
    \<and> (num_ge perfScore (Fin 50) \<and> num_less perfScore (Fin 90) \<longrightarrow>
          sel r [''roiAnalysis'', ''estimatedLostRevenue''] =
            JStr (symOf bi currency @ ''25,000 - '' @ symOf bi currency @ ''45,000 Risk''))
    \<and> (num_less perfScore (Fin 50) \<longrightarrow>
          sel r [''roiAnalysis'', ''estimatedLostRevenue''] =
            JStr (symOf bi currency @ ''80,000+ Risk''))
    \<and> (currency = ''USD'' \<longrightarrow> symOf bi currency = ''$'')
    \<and> (currency = ''GBP'' \<longrightarrow> symOf bi currency = [CHR 0xC2, CHR 0xA3])
    \<and> (currency = ''AUD'' \<longrightarrow> symOf bi currency = ''A$'')
    \<and> (currency = ''CAD'' \<longrightarrow> symOf bi currency = ''C$'')
    \<and> (currency = ''EUR'' \<longrightarrow> symOf bi currency = [CHR 0xE2, CHR 0x82, CHR 0xAC])
    \<and> (currency \<notin> {''USD'', ''GBP'', ''AUD'', ''CAD'', ''EUR''} \<longrightarrow>
          symOf bi currency =
            (case inheritedText bi currency of Some t \<Rightarrow> t | None \<Rightarrow> ''$''))"
proof -
  from createSafeReport_001_sections [OF assms, of dateStr url currency screenshot]
  obtain r where "createSafeReport_001 bi dateStr data url perfScore currency screenshot = Inr r"
    and "getProp r ''roiAnalysis'' = roiAnalysis_001 data perfScore (symOf bi currency)"
    by blast
  moreover have "num_less perfScore (Fin 90) \<Longrightarrow> \<not> num_ge perfScore (Fin 90)"
    by (simp add: num_ge_def)
  moreover have "num_less perfScore (Fin 50) \<Longrightarrow> \<not> num_ge perfScore (Fin 50)"
    by (simp add: num_ge_def)
  moreover have "num_less perfScore (Fin 50) \<Longrightarrow> \<not> num_ge perfScore (Fin 90)"
    by (cases perfScore) (simp_all add: num_ge_def)
  ultimately show ?thesis
    using symOf_other [of currency bi]
    by (auto simp add: roiAnalysis_001_def revenueRisk_def symOf_table)
qed

text \<open>
  The boundaries: the scores 100, 90, 89, 50, 49 and 0 in dollars, the score 89 in
  pounds, and the score 72 in a currency that the table does not hold.
\<close>

theorem risk_tiers_witness:
  "accepted bi0 (JObj []) (Fin 72)
   \<and> map (\<lambda>s. map_sum id (\<lambda>r. sel r [''roiAnalysis'', ''estimatedLostRevenue''])
             (createSafeReport_001 bi0 ''MAY 2025'' (JObj []) ''example.com'' (Fin s)
                ''USD'' JNull))
       [100, 90, 89, 50, 49, 0]
     = [Inr (JStr ''$0 - $5,000 Risk''), Inr (JStr ''$0 - $5,000 Risk''),
        Inr (JStr ''$25,000 - $45,000 Risk''), Inr (JStr ''$25,000 - $45,000 Risk''),
        Inr (JStr ''$80,000+ Risk''), Inr (JStr ''$80,000+ Risk'')]
   \<and> map_sum id (\<lambda>r. sel r [''roiAnalysis'', ''estimatedLostRevenue''])
        (createSafeReport_001 bi0 ''MAY 2025'' (JObj []) ''example.com'' (Fin 89) ''GBP'' JNull)
     = Inr (JStr ([CHR 0xC2, CHR 0xA3] @ ''25,000 - '' @ [CHR 0xC2, CHR 0xA3] @ ''45,000 Risk''))
   \<and> map_sum id (\<lambda>r. sel r [''roiAnalysis'', ''estimatedLostRevenue''])
        (createSafeReport_001 bi0 ''MAY 2025'' (JObj []) ''example.com'' (Fin 72) ''JPY'' JNull)
     = Inr (JStr ''$25,000 - $45,000 Risk'')"
proof -
  note t = risk_tiers [OF accepted_empty, where bi = bi0 and dateStr = "''MAY 2025''"
      and url = "''example.com''" and screenshot = JNull]
  have j: "inheritedText bi0 ''JPY'' = None"
    by (simp add: bi0_def)
  from t [of "Fin 100" "''USD''"] t [of "Fin 90" "''USD''"] t [of "Fin 89" "''USD''"]
    t [of "Fin 50" "''USD''"] t [of "Fin 49" "''USD''"] t [of "Fin 0" "''USD''"]
    t [of "Fin 89" "''GBP''"] t [of "Fin 72" "''JPY''"]
  show ?thesis
    by (auto simp add: num_ge_def j)
qed

subsection \<open>Determinism\<close>

lemma date_field_001:
  "accepted bi data perfScore \<Longrightarrow>
   map_sum id (\<lambda>r. sel r [''titlePage'', ''date''])
     (createSafeReport_001 bi d data url perfScore currency screenshot) = Inr (JStr d)"
  using createSafeReport_001_sections [of bi data perfScore d url currency screenshot]
  by (auto simp add: titlePage_001_def)

lemma date_field_000:
  "accepted bi data perfScore \<Longrightarrow>
   map_sum id (\<lambda>r. sel r [''titlePage'', ''date''])
     (createSafeReport_000 bi d data url perfScore currency) = Inr (JStr d)"
  using createSafeReport_000_sections [of bi data perfScore d url currency]
  by (auto simp add: titlePage_000_def)

text \<open>
  Claim C9 fails as stated: the report's \<open>titlePage.date\<close> is read from the clock, so
  two calls with the same arguments in different months return different reports. The
  date is a field of the report; the random audit identifier of the design notes is not.
\<close>

theorem clock_dependence_counterexample:
  "createSafeReport_001 bi0 ''MAY 2025'' (JObj []) ''example.com'' (Fin 72) ''USD'' JNull
   \<noteq> createSafeReport_001 bi0 ''JUNE 2025'' (JObj []) ''example.com'' (Fin 72) ''USD''
       JNull"
proof
  assume "createSafeReport_001 bi0 ''MAY 2025'' (JObj []) ''example.com'' (Fin 72) ''USD''
      JNull
    = createSafeReport_001 bi0 ''JUNE 2025'' (JObj []) ''example.com'' (Fin 72) ''USD''
      JNull"
  with date_field_001 [OF accepted_empty, where bi = bi0 and perfScore = "Fin 72"
      and d = "''MAY 2025''" and url = "''example.com''" and currency = "''USD''"
      and screenshot = JNull]
    date_field_001 [OF accepted_empty, where bi = bi0 and perfScore = "Fin 72"
      and d = "''JUNE 2025''" and url = "''example.com''" and currency = "''USD''"
      and screenshot = JNull]
  show False by simp
qed

lemma withDate_001:
  "createSafeReport_001 bi d2 data url perfScore currency screenshot =
     map_sum id (withDate d2) (createSafeReport_001 bi d1 data url perfScore currency screenshot)"
  by (cases "toNumber (toNum bi) (get data [''executiveSummary'', ''overallScore'']
        (JNum (math_max perfScore (Fin 65))))";
      cases "recommendations_001 data (symOf bi currency)")
    (simp_all add: bindE_def createSafeReport_001_def Let_def withDate_def titlePage_001_def)

lemma withDate_000:
  "createSafeReport_000 bi d2 data url perfScore currency =
     map_sum id (withDate d2) (createSafeReport_000 bi d1 data url perfScore currency)"
  by (cases "toNumber (toNum bi) (get data [''executiveSummary'', ''overallScore'']
        (JNum (math_max perfScore (Fin 65))))";
      cases "recommendations_000 data (symOf bi currency)")
    (simp_all add: bindE_def createSafeReport_000_def Let_def withDate_def titlePage_000_def)

lemma date_is_clock_001:
  "map_sum id (\<lambda>r. sel r [''titlePage'', ''date''])
     (createSafeReport_001 bi d data url perfScore currency screenshot) =
   map_sum id (\<lambda>r. JStr d) (createSafeReport_001 bi d data url perfScore currency screenshot)"
  by (cases "toNumber (toNum bi) (get data [''executiveSummary'', ''overallScore'']
        (JNum (math_max perfScore (Fin 65))))";
      cases "recommendations_001 data (symOf bi currency)")
    (simp_all add: bindE_def createSafeReport_001_def Let_def titlePage_001_def)

lemma date_is_clock_000:
  "map_sum id (\<lambda>r. sel r [''titlePage'', ''date''])
     (createSafeReport_000 bi d data url perfScore currency) =
   map_sum id (\<lambda>r. JStr d) (createSafeReport_000 bi d data url perfScore currency)"
  by (cases "toNumber (toNum bi) (get data [''executiveSummary'', ''overallScore'']
        (JNum (math_max perfScore (Fin 65))))";
      cases "recommendations_000 data (symOf bi currency)")
    (simp_all add: bindE_def createSafeReport_000_def Let_def titlePage_000_def)

text \<open>
  Claim C9, amended. Two calls of \<open>createSafeReport\<close> with the same candidate, url,
  performance score, currency and screenshot return reports that are equal in every
  field other than \<open>titlePage.date\<close>, which holds the month and year read from the clock
  at the call: the report of a call at one date is the report of a call at any other date
  with that field replaced, and both calls throw or neither does. This holds for both
  versions.
\<close>

theorem deterministic_but_date:
  "createSafeReport_001 bi d2 data url perfScore currency screenshot =
     map_sum id (withDate d2) (createSafeReport_001 bi d1 data url perfScore currency screenshot)
   \<and> createSafeReport_000 bi d2 data url perfScore currency =
     map_sum id (withDate d2) (createSafeReport_000 bi d1 data url perfScore currency)
   \<and> map_sum id (\<lambda>r. sel r [''titlePage'', ''date''])
       (createSafeReport_001 bi d2 data url perfScore currency screenshot) =
     map_sum id (\<lambda>r. JStr d2) (createSafeReport_001 bi d2 data url perfScore currency screenshot)
   \<and> map_sum id (\<lambda>r. sel r [''titlePage'', ''date''])
       (createSafeReport_000 bi d2 data url perfScore currency) =
     map_sum id (\<lambda>r. JStr d2) (createSafeReport_000 bi d2 data url perfScore currency)"
  using withDate_001 [of bi d2 data url perfScore currency screenshot d1]
    withDate_000 [of bi d2 data url perfScore currency d1]
    date_is_clock_001 [of bi d2 data url perfScore currency screenshot]
    date_is_clock_000 [of bi d2 data url perfScore currency]
  by blast

end
